theory Spec2Isabelle
  imports Complex_Main "HOL-Library.Log_Nat"
begin

text \<open>
  A model of \<^verbatim>\<open>frontend/app.js\<close>, the script of the EdgeNudge page: reading the six
  sensor widgets, running the occupancy classifier on them, showing the result with an
  estimate of the energy that could be saved, and the scenario player that walks through
  the four presets. The functions keep the names they have in the script. The page
  markup, the loading of the model and the inference engine are outside the script: the
  model is there or not (\<open>session\<close>), and what the engine, the clock and the conversions
  of the language give is an argument of the function that uses it. The elements the
  script looks up by id are taken to exist. Strings are byte strings; a character outside
  ASCII is written as its UTF-8 bytes.
\<close>

section \<open>JavaScript numbers\<close>

text \<open>
  Every number of the script is a JavaScript Number, an IEEE-754 binary64 value. A finite
  value is represented by the real number it denotes; the two zeros are identified (the
  program never divides by a sensor value and never inspects the sign of a zero).
  Arithmetic computes the exact result and rounds it to the nearest representable value,
  ties to even, as the language prescribes.
\<close>

datatype jsnum = NaN | NegInf | Fin real | PosInf

text \<open>\<open>ilog2 x\<close> is the binary exponent of a positive number: \<open>2^e \<le> x < 2^(e+1)\<close>.\<close>

definition ilog2 :: "real \<Rightarrow> int" where
  "ilog2 x = (if 1 \<le> x then bitlen \<lfloor>x\<rfloor> - 1 else - bitlen (\<lceil>1 / x\<rceil> - 1))"

text \<open>Round a number to the nearest integer, ties to the even one.\<close>

definition rne :: "real \<Rightarrow> int" where
  "rne y =
     (let f = \<lfloor>y\<rfloor>; d = y - of_int f
      in if d < 1 / 2 then f
         else if 1 / 2 < d then f + 1
         else if even f then f else f + 1)"

text \<open>
  Rounding to a binary format with \<open>p\<close> bits of precision and exponents from \<open>emin\<close> to
  \<open>emax\<close>; below \<open>2^emin\<close> the spacing stays that of the lowest binade (subnormals), and a
  result of magnitude \<open>2^(emax+1)\<close> or more is an infinity.
\<close>

definition round_to :: "nat \<Rightarrow> int \<Rightarrow> int \<Rightarrow> real \<Rightarrow> jsnum" where
  "round_to p emin emax x =
     (if x = 0 then Fin 0
      else let e = max (ilog2 \<bar>x\<bar>) emin;
               q = 2 powi (e - int p + 1);
               r = of_int (rne (x / q)) * q
           in if 2 powi (emax + 1) \<le> \<bar>r\<bar> then (if 0 < x then PosInf else NegInf)
              else Fin r)"

definition fl :: "real \<Rightarrow> jsnum" where
  "fl = round_to 53 (- 1022) 1023"

text \<open>
  The same rounding in two steps, for reasoning: the spacing of the format around \<open>x\<close>,
  and the multiple of it nearest to \<open>x\<close>.
\<close>

definition quantum :: "nat \<Rightarrow> int \<Rightarrow> real \<Rightarrow> real" where
  "quantum p emin x = 2 powi (max (ilog2 \<bar>x\<bar>) emin - int p + 1)"

definition rounded :: "nat \<Rightarrow> int \<Rightarrow> real \<Rightarrow> real" where
  "rounded p emin x =
     (if x = 0 then 0 else of_int (rne (x / quantum p emin x)) * quantum p emin x)"

text \<open>A decimal literal of the source denotes the double nearest to it.\<close>

definition lit :: "real \<Rightarrow> jsnum" where
  "lit x = fl x"

fun js_neg :: "jsnum \<Rightarrow> jsnum" where
  "js_neg NaN = NaN"
| "js_neg NegInf = PosInf"
| "js_neg PosInf = NegInf"
| "js_neg (Fin a) = Fin (- a)"

fun js_add :: "jsnum \<Rightarrow> jsnum \<Rightarrow> jsnum" where
  "js_add NaN _ = NaN"
| "js_add _ NaN = NaN"
| "js_add PosInf NegInf = NaN"
| "js_add NegInf PosInf = NaN"
| "js_add PosInf _ = PosInf"
| "js_add NegInf _ = NegInf"
| "js_add (Fin a) PosInf = PosInf"
| "js_add (Fin a) NegInf = NegInf"
| "js_add (Fin a) (Fin b) = fl (a + b)"

definition js_sub :: "jsnum \<Rightarrow> jsnum \<Rightarrow> jsnum" where
  "js_sub a b = js_add a (js_neg b)"

definition inf_of_sign :: "bool \<Rightarrow> jsnum" where
  "inf_of_sign positive = (if positive then PosInf else NegInf)"

fun js_mul :: "jsnum \<Rightarrow> jsnum \<Rightarrow> jsnum" where
  "js_mul NaN _ = NaN"
| "js_mul _ NaN = NaN"
| "js_mul (Fin a) (Fin b) = fl (a * b)"
| "js_mul (Fin a) PosInf = (if a = 0 then NaN else inf_of_sign (0 < a))"
| "js_mul (Fin a) NegInf = (if a = 0 then NaN else inf_of_sign (a < 0))"
| "js_mul PosInf (Fin b) = (if b = 0 then NaN else inf_of_sign (0 < b))"
| "js_mul NegInf (Fin b) = (if b = 0 then NaN else inf_of_sign (b < 0))"
| "js_mul PosInf PosInf = PosInf"
| "js_mul NegInf NegInf = PosInf"
| "js_mul PosInf NegInf = NegInf"
| "js_mul NegInf PosInf = NegInf"

text \<open>
  Division; a zero divisor is taken as \<open>+0\<close>. No division of the program has a zero
  divisor: the divisors are the constants 1000 and 0.0575 and a prediction count that
  has just been incremented.
\<close>

fun js_div :: "jsnum \<Rightarrow> jsnum \<Rightarrow> jsnum" where
  "js_div NaN _ = NaN"
| "js_div _ NaN = NaN"
| "js_div (Fin a) (Fin b) =
     (if b = 0 then (if a = 0 then NaN else inf_of_sign (0 < a)) else fl (a / b))"
| "js_div (Fin a) PosInf = Fin 0"
| "js_div (Fin a) NegInf = Fin 0"
| "js_div PosInf (Fin b) = inf_of_sign (0 \<le> b)"
| "js_div NegInf (Fin b) = inf_of_sign (b < 0)"
| "js_div PosInf _ = NaN"
| "js_div NegInf _ = NaN"

text \<open>The relational operators: every comparison with \<open>NaN\<close> is false.\<close>

fun js_lt :: "jsnum \<Rightarrow> jsnum \<Rightarrow> bool" where
  "js_lt NaN _ = False"
| "js_lt _ NaN = False"
| "js_lt (Fin a) (Fin b) = (a < b)"
| "js_lt NegInf NegInf = False"
| "js_lt NegInf _ = True"
| "js_lt PosInf _ = False"
| "js_lt (Fin a) PosInf = True"
| "js_lt (Fin a) NegInf = False"

definition js_gt :: "jsnum \<Rightarrow> jsnum \<Rightarrow> bool" where
  "js_gt a b = js_lt b a"

text \<open>Strict equality \<^verbatim>\<open>===\<close> on numbers.\<close>

definition js_seq :: "jsnum \<Rightarrow> jsnum \<Rightarrow> bool" where
  "js_seq a b = (a \<noteq> NaN \<and> a = b)"

definition js_le :: "jsnum \<Rightarrow> jsnum \<Rightarrow> bool" where
  "js_le a b = (js_lt a b \<or> js_seq a b)"

text \<open>\<^verbatim>\<open>Math.round\<close>: the nearest integer, a tie going up.\<close>

fun js_round :: "jsnum \<Rightarrow> jsnum" where
  "js_round (Fin a) = Fin (of_int \<lfloor>a + 1 / 2\<rfloor>)"
| "js_round x = x"

text \<open>
  Storing a Number into a \<^verbatim>\<open>Float32Array\<close> rounds it to the nearest binary32 value
  (24 bits of precision, exponents from -126 to 127).
\<close>

fun fround :: "jsnum \<Rightarrow> jsnum" where
  "fround (Fin a) = round_to 24 (- 126) 127 a"
| "fround x = x"

text \<open>\<^verbatim>\<open>Number(v)\<close> of a BigInt: the double nearest to the integer.\<close>

definition Number_of_BigInt :: "int \<Rightarrow> jsnum" where
  "Number_of_BigInt n = fl (of_int n)"

section \<open>Data\<close>

text \<open>The values a preset field can be read as; \<open>Undefined\<close> is a missing property.\<close>

datatype jsval = Undefined | Num jsnum | Bool bool | Str string

fun ToBoolean :: "jsval \<Rightarrow> bool" where
  "ToBoolean Undefined = False"
| "ToBoolean (Bool b) = b"
| "ToBoolean (Num n) = (n \<noteq> NaN \<and> n \<noteq> Fin 0)"
| "ToBoolean (Str s) = (s \<noteq> [])"

record preset =
  hour :: jsnum
  day :: jsnum
  light :: jsnum
  temp :: jsnum
  pir :: bool
  phone :: bool
  name :: string

definition presets :: "(string \<times> preset) list" where
  "presets =
     [(''empty'',
         \<lparr>hour = Fin 2, day = Fin 1, light = Fin 15, temp = lit 20.0,
          pir = False, phone = False, name = ''Late Night (Empty)''\<rparr>),
      (''morning'',
         \<lparr>hour = Fin 9, day = Fin 2, light = Fin 550, temp = lit 23.0,
          pir = True, phone = True, name = ''Morning Class (Occupied)''\<rparr>),
      (''evening'',
         \<lparr>hour = Fin 20, day = Fin 3, light = Fin 600, temp = lit 23.5,
          pir = True, phone = True, name = ''Evening Study (Occupied)''\<rparr>),
      (''weekend'',
         \<lparr>hour = Fin 8, day = Fin 5, light = Fin 200, temp = lit 20.5,
          pir = False, phone = False, name = ''Weekend Morning (Empty)''\<rparr>)]"

text \<open>
  \<^verbatim>\<open>presets\<close> is an object literal, so \<^verbatim>\<open>presets[presetName]\<close> is a property
  lookup along the prototype chain: a name that is not one of the four own keys still
  finds a member of \<^verbatim>\<open>Object.prototype\<close> when it names one. Every such member is a
  function or an object, hence truthy, and has none of the preset fields.
\<close>

definition Object_prototype_keys :: "string list" where
  "Object_prototype_keys =
     [''constructor'', ''hasOwnProperty'', ''isPrototypeOf'', ''propertyIsEnumerable'',
      ''toLocaleString'', ''toString'', ''valueOf'', ''__proto__'',
      ''__defineGetter__'', ''__defineSetter__'', ''__lookupGetter__'',
      ''__lookupSetter__'']"

datatype property = Own preset | Inherited

definition presets_get :: "string \<Rightarrow> property option" where
  "presets_get presetName =
     (case map_of presets presetName of
        Some p \<Rightarrow> Some (Own p)
      | None \<Rightarrow> if presetName \<in> set Object_prototype_keys then Some Inherited else None)"

text \<open>Reading a field of the value found; a member of the prototype has no such field.\<close>

fun get_num :: "(preset \<Rightarrow> jsnum) \<Rightarrow> property \<Rightarrow> jsval" where
  "get_num f (Own p) = Num (f p)"
| "get_num f Inherited = Undefined"

fun get_bool :: "(preset \<Rightarrow> bool) \<Rightarrow> property \<Rightarrow> jsval" where
  "get_bool f (Own p) = Bool (f p)"
| "get_bool f Inherited = Undefined"

definition dayNames :: "string list" where
  "dayNames = [''Monday'', ''Tuesday'', ''Wednesday'', ''Thursday'', ''Friday'',
               ''Saturday'', ''Sunday'']"

text \<open>The object returned by \<^verbatim>\<open>getSensorValues\<close>.\<close>

record sensors =
  hour :: jsnum
  day_of_week :: jsnum
  ambient_light :: jsnum
  pir_motion :: jsnum
  phone_presence :: jsnum
  temperature :: jsnum

text \<open>The object returned by \<^verbatim>\<open>calculateEnergySavings\<close>.\<close>

record savings =
  lightsKwh :: jsnum
  fanKwh :: jsnum
  acKwh :: jsnum
  totalKwh :: jsnum
  totalCost :: jsnum
  co2Saved :: jsnum
  treesEquiv :: jsnum
  hoursEmpty :: jsnum

section \<open>The energy estimator\<close>

definition LIGHTS_POWER :: jsnum where "LIGHTS_POWER = Fin 10"
definition FAN_POWER :: jsnum where "FAN_POWER = Fin 75"
definition AC_POWER :: jsnum where "AC_POWER = Fin 500"
definition costPerKwh :: jsnum where "costPerKwh = lit 0.12"
definition co2PerKwh :: jsnum where "co2PerKwh = lit 0.92"

definition calculateEnergySavings :: "sensors \<Rightarrow> savings" where
  "calculateEnergySavings s =
     (let hoursEmpty = Fin 2;
          lightsKwh = (if js_gt (ambient_light s) (Fin 300)
                       then js_div (js_mul LIGHTS_POWER hoursEmpty) (Fin 1000) else Fin 0);
          fanKwh = (if js_gt (temperature s) (Fin 24)
                    then js_div (js_mul FAN_POWER hoursEmpty) (Fin 1000) else Fin 0);
          acKwh = (if js_gt (temperature s) (Fin 25)
                   then js_div (js_mul AC_POWER hoursEmpty) (Fin 1000) else Fin 0);
          totalKwh = js_add (js_add lightsKwh fanKwh) acKwh;
          totalCost = js_mul totalKwh costPerKwh;
          co2Saved = js_mul (js_mul totalKwh co2PerKwh) (lit 0.453592);
          treesEquiv = js_div co2Saved (lit 0.0575)
      in \<lparr>lightsKwh = lightsKwh, fanKwh = fanKwh, acKwh = acKwh, totalKwh = totalKwh,
          totalCost = totalCost, co2Saved = co2Saved, treesEquiv = treesEquiv,
          hoursEmpty = hoursEmpty\<rparr>)"

text \<open>
  The campus-wide projection: the local constants of \<^verbatim>\<open>displayEnergySummary\<close>, each
  as a function of the savings object it is computed from.
\<close>

definition roomsCount :: jsnum where "roomsCount = Fin 100"
definition daysPerMonth :: jsnum where "daysPerMonth = Fin 30"
definition daysPerYear :: jsnum where "daysPerYear = Fin 365"
definition optimizationRate :: jsnum where "optimizationRate = lit 0.3"
definition predictionsPerDay :: jsnum where "predictionsPerDay = Fin 4"

definition dailySavingsPerRoom :: "savings \<Rightarrow> jsnum" where
  "dailySavingsPerRoom sv = js_mul (js_mul (totalKwh sv) predictionsPerDay) optimizationRate"

definition monthlySavings :: "savings \<Rightarrow> jsnum" where
  "monthlySavings sv = js_mul (js_mul (dailySavingsPerRoom sv) roomsCount) daysPerMonth"

definition annualSavings :: "savings \<Rightarrow> jsnum" where
  "annualSavings sv = js_mul (js_mul (dailySavingsPerRoom sv) roomsCount) daysPerYear"

definition annualCO2 :: "savings \<Rightarrow> jsnum" where
  "annualCO2 sv =
     js_mul (js_mul (js_mul (js_mul (co2Saved sv) predictionsPerDay) optimizationRate)
               roomsCount) daysPerYear"

section \<open>The page and the global state\<close>

text \<open>
  The six input widgets: the \<^verbatim>\<open>value\<close> of a slider is a string, the
  \<^verbatim>\<open>checked\<close> state of a toggle a boolean.
\<close>

record widgets =
  hourInput :: string
  dayInput :: string
  lightInput :: string
  tempInput :: string
  pirInput :: bool
  phoneInput :: bool

text \<open>
  Two conversions of the language are taken as parameters: \<^verbatim>\<open>parseFloat\<close>, and the
  conversion of a value to the string that an assignment to \<^verbatim>\<open>value\<close> stores.
\<close>

record host =
  parseFloat :: "string \<Rightarrow> jsnum"
  ToString :: "jsval \<Rightarrow> string"

text \<open>
  Text written to the page is a template: literal pieces, numbers formatted by
  \<^verbatim>\<open>toFixed\<close> with a number of digits, numbers and counters converted directly.
\<close>

datatype piece = S string | F nat jsnum | V jsnum | N int

type_synonym template = "piece list"

record sensor_displays =
  hourValue_text :: template
  dayValue_text :: template
  lightValue_text :: template
  tempValue_text :: template

text \<open>The values interpolated into the result card and into the nudge card.\<close>

record result_card =
  statusClass :: string
  statusEmoji :: string
  statusText :: string
  confidence :: jsnum

datatype nudge_card = RoomInUse | SavingOpportunity template

record results_view =
  resultsContainer_html :: "result_card option"
  inferenceTime_text :: template
  metricsContainer_display :: string
  avgLatency_text :: template
  totalPredictions_text :: template
  currentProvider_text :: template

record energy_view =
  energyNudgeContainer_html :: "nudge_card option"
  energySummaryContainer_display :: string
  lightsSavings_text :: template
  fanSavings_text :: template
  acSavings_text :: template
  totalSavings_text :: template
  totalCost_text :: template
  co2Saved_text :: template
  treesEquiv_text :: template
  monthlySavings_text :: template
  annualSavings_text :: template
  annualCO2_text :: template

record demo_view =
  demoBanner_display :: string
  autoDemoBtn_display :: string
  demoScenario_text :: template

text \<open>
  The tensor handed to the inference engine, what a call of the engine answers (an error
  when the promise is rejected, otherwise the data of each output fetched), and the
  session object.
\<close>

record tensor =
  dtype :: string
  data :: "jsnum list"
  dims :: "nat list"

datatype label_data = BigIntV int | NumberV jsnum

type_synonym feeds = "(string \<times> tensor) list"
type_synonym outputs = "(string \<times> label_data list) list"

type_synonym response = "string + outputs"

record session_obj =
  executionProviders :: "string list"

text \<open>
  The timers of the browser: an interval runs the auto-demo step, a timeout runs
  \<^verbatim>\<open>runPrediction\<close>; each is registered under a positive handle.
\<close>

datatype timer = Interval nat | Timeout nat

text \<open>
  The global variables of the script, the page, and what the script has done to its
  environment: the timers it holds, the alerts it has raised, and the calls it has made
  to the inference engine. Counters hold small non-negative integers, which a Number
  represents exactly; console output is not modelled.
\<close>

record app =
  session :: "session_obj option"
  inferenceTime :: jsnum
  predictionCount :: nat
  totalLatency :: jsnum
  autoDemoInterval :: "nat option"
  currentDemoStep :: nat
  widgets :: widgets
  displays :: sensor_displays
  results :: results_view
  energy :: energy_view
  demo :: demo_view
  timers :: "(nat \<times> timer) list"
  lastHandle :: nat
  alerts :: "string list"
  engineCalls :: "(feeds \<times> string list) list"

text \<open>The state when the script has been loaded and no model is there yet.\<close>

definition initial :: "widgets \<Rightarrow> sensor_displays \<Rightarrow> results_view \<Rightarrow> energy_view \<Rightarrow>
    demo_view \<Rightarrow> app" where
  "initial w d r e m =
     \<lparr>session = None, inferenceTime = Fin 0, predictionCount = 0, totalLatency = Fin 0,
      autoDemoInterval = None, currentDemoStep = 0, widgets = w, displays = d,
      results = r, energy = e, demo = m, timers = [], lastHandle = 0, alerts = [],
      engineCalls = []\<rparr>"

definition alert :: "string \<Rightarrow> app \<Rightarrow> app" where
  "alert msg st = st\<lparr>alerts := alerts st @ [msg]\<rparr>"

definition setTimeout :: "nat \<Rightarrow> app \<Rightarrow> app" where
  "setTimeout delay st =
     st\<lparr>timers := timers st @ [(Suc (lastHandle st), Timeout delay)],
        lastHandle := Suc (lastHandle st)\<rparr>"

definition setInterval :: "nat \<Rightarrow> app \<Rightarrow> nat \<times> app" where
  "setInterval period st =
     (Suc (lastHandle st),
      st\<lparr>timers := timers st @ [(Suc (lastHandle st), Interval period)],
         lastHandle := Suc (lastHandle st)\<rparr>)"

definition clearInterval :: "nat \<Rightarrow> app \<Rightarrow> app" where
  "clearInterval h st = st\<lparr>timers := filter (\<lambda>t. fst t \<noteq> h) (timers st)\<rparr>"

section \<open>Reading the sensors\<close>

definition getSensorValues :: "host \<Rightarrow> widgets \<Rightarrow> sensors" where
  "getSensorValues env w =
     \<lparr>hour = parseFloat env (hourInput w),
      day_of_week = parseFloat env (dayInput w),
      ambient_light = parseFloat env (lightInput w),
      pir_motion = (if pirInput w then lit 1.0 else lit 0.0),
      phone_presence = (if phoneInput w then lit 1.0 else lit 0.0),
      temperature = parseFloat env (tempInput w)\<rparr>"

text \<open>
  \<^verbatim>\<open>dayNames[day]\<close> with the slider's string as the property name: an index from 0 to 6
  gives the name; anything else is taken to give \<^verbatim>\<open>undefined\<close>, which shows as empty
  text.
\<close>

definition dayNames_at :: "string \<Rightarrow> template" where
  "dayNames_at i =
     (case map_of (zip [''0'', ''1'', ''2'', ''3'', ''4'', ''5'', ''6''] dayNames) i of
        Some n \<Rightarrow> [S n]
      | None \<Rightarrow> [])"

definition updateSensorDisplays :: "app \<Rightarrow> app" where
  "updateSensorDisplays st =
     (let hour = hourInput (widgets st);
          day = dayInput (widgets st);
          light = lightInput (widgets st);
          temp = tempInput (widgets st)
      in st\<lparr>displays :=
              \<lparr>hourValue_text = [S hour],
               dayValue_text = dayNames_at day,
               lightValue_text = [S light, S '' lux''],
               tempValue_text = [S temp, S [CHR 0xC2, CHR 0xB0, CHR ''C'']]\<rparr>\<rparr>)"

section \<open>Showing a prediction\<close>

definition toUpperCase :: "string \<Rightarrow> string" where
  "toUpperCase =
     map (\<lambda>c. if of_char (CHR ''a'') \<le> (of_char c :: nat) \<and> (of_char c :: nat) \<le> of_char (CHR ''z'')
              then char_of (of_char c - (32 :: nat)) else c)"

definition updatePerformanceMetrics :: "jsnum \<Rightarrow> app \<Rightarrow> app" where
  "updatePerformanceMetrics latency st =
     (let st1 = st\<lparr>predictionCount := predictionCount st + 1,
                    totalLatency := js_add (totalLatency st) latency\<rparr>;
          avgLatency = js_div (totalLatency st1) (Fin (real (predictionCount st1)));
          provider =
            (case session st1 of
               Some sess \<Rightarrow>
                 (case executionProviders sess of
                    [] \<Rightarrow> ''WASM''
                  | x # _ \<Rightarrow> toUpperCase x)
             | None \<Rightarrow> ''WASM'')
      in st1\<lparr>results := (results st1)
               \<lparr>avgLatency_text := [F 2 avgLatency, S '' ms''],
                totalPredictions_text := [N (int (predictionCount st1))],
                currentProvider_text := [S provider]\<rparr>\<rparr>)"

definition displayEnergySummary :: "savings \<Rightarrow> app \<Rightarrow> app" where
  "displayEnergySummary sv st =
     st\<lparr>energy := (energy st)
          \<lparr>lightsSavings_text := [F 2 (lightsKwh sv), S '' kWh''],
           fanSavings_text := [F 2 (fanKwh sv), S '' kWh''],
           acSavings_text := [F 2 (acKwh sv), S '' kWh''],
           totalSavings_text := [F 2 (totalKwh sv), S '' kWh''],
           totalCost_text := [S ''$'', F 2 (totalCost sv), S '' saved''],
           co2Saved_text := [F 1 (co2Saved sv), S '' kg''],
           treesEquiv_text := [V (js_round (treesEquiv sv))],
           monthlySavings_text :=
             [F 0 (monthlySavings sv), S '' kWh ($'',
              F 0 (js_mul (monthlySavings sv) (lit 0.12)), S '')''],
           annualSavings_text :=
             [F 0 (annualSavings sv), S '' kWh ($'',
              F 0 (js_mul (annualSavings sv) (lit 0.12)), S '')''],
           annualCO2_text :=
             [F 1 (js_div (annualCO2 sv) (Fin 1000)),
              S ('' tons CO'' @ [CHR 0xE2, CHR 0x82, CHR 0x82])]\<rparr>\<rparr>"

definition generateEnergyNudge :: "jsnum \<Rightarrow> sensors \<Rightarrow> app \<Rightarrow> app" where
  "generateEnergyNudge prediction sens st =
     (let isOccupied = js_seq prediction (Fin 1)
      in if isOccupied
         then st\<lparr>energy := (energy st)
                   \<lparr>energyNudgeContainer_html := Some RoomInUse,
                    energySummaryContainer_display := ''none''\<rparr>\<rparr>
         else let potentialSavings = calculateEnergySavings sens;
                  st1 = st\<lparr>energy := (energy st)
                          \<lparr>energyNudgeContainer_html :=
                             Some (SavingOpportunity [F 2 (totalKwh potentialSavings)])\<rparr>\<rparr>;
                  st2 = displayEnergySummary potentialSavings st1
              in st2\<lparr>energy := (energy st2)\<lparr>energySummaryContainer_display := ''block''\<rparr>\<rparr>)"

definition displayResults :: "host \<Rightarrow> jsnum \<Rightarrow> jsnum list option \<Rightarrow> jsnum \<Rightarrow> app \<Rightarrow> app" where
  "displayResults env label probability latency st =
     (let isOccupied = js_seq label (Fin 1);
          statusText = (if isOccupied then ''OCCUPIED'' else ''EMPTY'');
          statusClass = (if isOccupied then ''occupied'' else ''empty'');
          statusEmoji = (if isOccupied then [CHR 0xF0, CHR 0x9F, CHR 0x94, CHR 0xB4]
                         else [CHR 0xE2, CHR 0x9C, CHR 0x85]);
          confidence =
            (case probability of
               Some probs \<Rightarrow>
                 if length probs = 2
                 then js_round (js_mul (if isOccupied then probs ! 1 else probs ! 0) (Fin 100))
                 else Fin 95
             | None \<Rightarrow> Fin 95);
          st1 = st\<lparr>results := (results st)
                  \<lparr>resultsContainer_html :=
                     Some \<lparr>statusClass = statusClass, statusEmoji = statusEmoji,
                           statusText = statusText, confidence = confidence\<rparr>,
                   inferenceTime_text := [F 2 latency, S '' ms''],
                   metricsContainer_display := ''block''\<rparr>\<rparr>;
          st2 = updatePerformanceMetrics latency st1
      in generateEnergyNudge label (getSensorValues env (widgets st2)) st2)"

section \<open>Running a prediction\<close>

definition Float32Array :: "jsnum list \<Rightarrow> jsnum list" where
  "Float32Array xs = map fround xs"

text \<open>\<^verbatim>\<open>Number(results.output_label.data[0])\<close>; an empty array gives \<^verbatim>\<open>undefined\<close>.\<close>

fun Number_of_first :: "label_data list \<Rightarrow> jsnum" where
  "Number_of_first [] = NaN"
| "Number_of_first (BigIntV n # _) = Number_of_BigInt n"
| "Number_of_first (NumberV x # _) = x"

text \<open>
  \<^verbatim>\<open>runPrediction\<close>. What the environment gives to one run is an argument: the two
  readings of \<^verbatim>\<open>performance.now()\<close> and the answer of the engine to
  \<^verbatim>\<open>session.run\<close>. The call is awaited; the run is taken as one step, with no other
  handler in between. A rejected call and an answer without the label output both end in
  the \<^verbatim>\<open>catch\<close> branch.
\<close>

definition runPrediction :: "host \<Rightarrow> jsnum \<Rightarrow> jsnum \<Rightarrow> response \<Rightarrow> app \<Rightarrow> app" where
  "runPrediction env now0 now1 answer st =
     (case session st of
        None \<Rightarrow> alert ''Model not loaded yet!'' st
      | Some sess \<Rightarrow>
          let startTime = now0;
              sens = getSensorValues env (widgets st);
              inputArray = Float32Array
                [sensors.hour sens, day_of_week sens, ambient_light sens, pir_motion sens,
                 phone_presence sens, temperature sens];
              inputTensor = \<lparr>dtype = ''float32'', data = inputArray, dims = [1, 6]\<rparr>;
              feeds = [(''float_input'', inputTensor)];
              fetchOutputs = [''output_label''];
              st1 = st\<lparr>engineCalls := engineCalls st @ [(feeds, fetchOutputs)]\<rparr>
          in case answer of
               Inl err \<Rightarrow> alert ''Prediction failed! Check console for details.'' st1
             | Inr res \<Rightarrow>
                 (case map_of res ''output_label'' of
                    None \<Rightarrow> alert ''Prediction failed! Check console for details.'' st1
                  | Some d \<Rightarrow>
                      let outputLabel = Number_of_first d;
                          outputProb = None;
                          endTime = now1;
                          st2 = st1\<lparr>inferenceTime := js_sub endTime startTime\<rparr>
                      in displayResults env outputLabel outputProb (inferenceTime st2) st2))"

section \<open>Presets and the scenario player\<close>

definition applyPreset :: "host \<Rightarrow> string \<Rightarrow> app \<Rightarrow> app" where
  "applyPreset env presetName st =
     (case presets_get presetName of
        None \<Rightarrow> st
      | Some p \<Rightarrow>
          let st1 = st\<lparr>widgets :=
                       \<lparr>hourInput = ToString env (get_num preset.hour p),
                        dayInput = ToString env (get_num preset.day p),
                        lightInput = ToString env (get_num preset.light p),
                        tempInput = ToString env (get_num preset.temp p),
                        pirInput = ToBoolean (get_bool preset.pir p),
                        phoneInput = ToBoolean (get_bool preset.phone p)\<rparr>\<rparr>;
              st2 = updateSensorDisplays st1
          in setTimeout 500 st2)"

definition demoScenarios :: "string list" where
  "demoScenarios = [''empty'', ''morning'', ''evening'', ''weekend'']"

text \<open>\<^verbatim>\<open>indexOf\<close>: the position of the first occurrence, or -1.\<close>

fun indexOf :: "string list \<Rightarrow> string \<Rightarrow> int" where
  "indexOf [] x = - 1"
| "indexOf (y # ys) x =
     (if y = x then 0 else let i = indexOf ys x in if i < 0 then - 1 else i + 1)"

text \<open>
  The \<^verbatim>\<open>name\<close> of the value found under a key: a preset's display name; for a member
  of the prototype, the name of that function (the prototype object itself has none).
\<close>

fun get_name :: "string \<Rightarrow> property \<Rightarrow> jsval" where
  "get_name k (Own p) = Str (name p)"
| "get_name k Inherited =
     (if k = ''constructor'' then Str ''Object''
      else if k = ''__proto__'' then Undefined
      else Str k)"

datatype exn = TypeError

text \<open>
  A handler either runs to its end, or stops with an uncaught exception in the state
  reached by then.
\<close>

type_synonym outcome = "(exn \<times> app) + app"

definition runDemoScenario :: "host \<Rightarrow> string \<Rightarrow> app \<Rightarrow> outcome" where
  "runDemoScenario env presetName st =
     (let stepNumber = indexOf demoScenarios presetName + 1
      in case presets_get presetName of
           None \<Rightarrow> Inl (TypeError, st)
         | Some p \<Rightarrow>
             let shown = (case get_name presetName p of Str n \<Rightarrow> n | v \<Rightarrow> ToString env v);
                 st1 = st\<lparr>demo := (demo st)
                         \<lparr>demoScenario_text :=
                            [S ''Scenario '', N stepNumber, S ''/4: '', S shown]\<rparr>\<rparr>
             in Inr (applyPreset env presetName st1))"

definition startAutoDemo :: "host \<Rightarrow> app \<Rightarrow> outcome" where
  "startAutoDemo env st =
     (let st1 = st\<lparr>demo := (demo st)
                   \<lparr>demoBanner_display := ''block'', autoDemoBtn_display := ''none''\<rparr>\<rparr>;
          st2 = st1\<lparr>currentDemoStep := 0\<rparr>
      in case runDemoScenario env (demoScenarios ! currentDemoStep st2) st2 of
           Inl e \<Rightarrow> Inl e
         | Inr st3 \<Rightarrow>
             let st4 = st3\<lparr>currentDemoStep := currentDemoStep st3 + 1\<rparr>;
                 (h, st5) = setInterval 7000 st4
             in Inr (st5\<lparr>autoDemoInterval := Some h\<rparr>))"

text \<open>The callback given to \<^verbatim>\<open>setInterval\<close>.\<close>

definition autoDemoTick :: "host \<Rightarrow> app \<Rightarrow> outcome" where
  "autoDemoTick env st =
     (if currentDemoStep st < length demoScenarios
      then case runDemoScenario env (demoScenarios ! currentDemoStep st) st of
             Inl e \<Rightarrow> Inl e
           | Inr st1 \<Rightarrow> Inr (st1\<lparr>currentDemoStep := currentDemoStep st1 + 1\<rparr>)
      else let st1 = st\<lparr>currentDemoStep := 0\<rparr>
           in case runDemoScenario env (demoScenarios ! currentDemoStep st1) st1 of
                Inl e \<Rightarrow> Inl e
              | Inr st2 \<Rightarrow> Inr (st2\<lparr>currentDemoStep := currentDemoStep st2 + 1\<rparr>))"

text \<open>
  \<^verbatim>\<open>if (autoDemoInterval)\<close>: a handle is truthy when it is there and is not zero.
\<close>

definition stopAutoDemo :: "app \<Rightarrow> app" where
  "stopAutoDemo st =
     (let st1 = (case autoDemoInterval st of
                   Some h \<Rightarrow>
                     if h \<noteq> 0 then (clearInterval h st)\<lparr>autoDemoInterval := None\<rparr> else st
                 | None \<Rightarrow> st);
          st2 = st1\<lparr>demo := (demo st1)
                   \<lparr>demoBanner_display := ''none'', autoDemoBtn_display := ''block''\<rparr>\<rparr>
      in st2\<lparr>currentDemoStep := 0\<rparr>)"

text \<open>
  The browser runs a timer only while it is registered: an interval stays, a timeout is
  removed when it fires. \<open>None\<close>: no such timer, nothing runs. The clock readings and
  the engine's answer are used when the timer runs a prediction.
\<close>

definition fire :: "host \<Rightarrow> jsnum \<Rightarrow> jsnum \<Rightarrow> response \<Rightarrow> nat \<Rightarrow> app \<Rightarrow> outcome option" where
  "fire env now0 now1 answer h st =
     (case map_of (timers st) h of
        None \<Rightarrow> None
      | Some (Interval period) \<Rightarrow> Some (autoDemoTick env st)
      | Some (Timeout delay) \<Rightarrow>
          Some (Inr (runPrediction env now0 now1 answer
                       (st\<lparr>timers := filter (\<lambda>t. fst t \<noteq> h) (timers st)\<rparr>))))"

section \<open>Runs of the page\<close>

text \<open>
  A run of predictions: one entry for each time \<^verbatim>\<open>runPrediction\<close> is entered, with what
  the environment gives to that run.
\<close>

type_synonym attempt = "jsnum \<times> jsnum \<times> response"

fun runPredictions :: "host \<Rightarrow> attempt list \<Rightarrow> app \<Rightarrow> app" where
  "runPredictions env [] st = st"
| "runPredictions env ((now0, now1, answer) # rest) st =
     runPredictions env rest (runPrediction env now0 now1 answer st)"

text \<open>An answer of the engine from which a label is read; the latency measured for a run.\<close>

definition succeeds :: "response \<Rightarrow> bool" where
  "succeeds answer =
     (case answer of Inl err \<Rightarrow> False | Inr res \<Rightarrow> map_of res ''output_label'' \<noteq> None)"

definition latency_of :: "attempt \<Rightarrow> jsnum" where
  "latency_of a = (case a of (now0, now1, answer) \<Rightarrow> js_sub now1 now0)"

definition latencies :: "attempt list \<Rightarrow> jsnum list" where
  "latencies as = map latency_of (filter (\<lambda>a. succeeds (snd (snd a))) as)"

text \<open>
  What can happen on the page while the scenario player runs: a registered timer fires,
  the user presses the predict button, the user presses a preset button, the user moves
  a widget (the browser stores the new values and runs the input listener). The start
  button is hidden while the player runs. A handler that stops with an exception leaves
  the page in the state reached by then.
\<close>

datatype event =
  Fire nat jsnum jsnum response
| Predict jsnum jsnum response
| Preset string
| Input widgets

definition after :: "outcome \<Rightarrow> app" where
  "after out = (case out of Inl (e, st) \<Rightarrow> st | Inr st \<Rightarrow> st)"

fun handle_event :: "host \<Rightarrow> event \<Rightarrow> app \<Rightarrow> app" where
  "handle_event env (Fire h now0 now1 answer) st =
     (case fire env now0 now1 answer h st of None \<Rightarrow> st | Some out \<Rightarrow> after out)"
| "handle_event env (Predict now0 now1 answer) st = runPrediction env now0 now1 answer st"
| "handle_event env (Preset k) st = applyPreset env k st"
| "handle_event env (Input w) st = updateSensorDisplays (st\<lparr>widgets := w\<rparr>)"

fun run_events :: "host \<Rightarrow> event list \<Rightarrow> app \<Rightarrow> app" where
  "run_events env [] st = st"
| "run_events env (ev # evs) st = run_events env evs (handle_event env ev st)"

text \<open>An event that is a firing of an interval timer, and the states right after these.\<close>

definition is_tick :: "event \<Rightarrow> app \<Rightarrow> bool" where
  "is_tick ev st =
     (case ev of
        Fire h now0 now1 answer \<Rightarrow>
          (case map_of (timers st) h of Some (Interval period) \<Rightarrow> True | _ \<Rightarrow> False)
      | _ \<Rightarrow> False)"

fun tick_states :: "host \<Rightarrow> event list \<Rightarrow> app \<Rightarrow> app list" where
  "tick_states env [] st = []"
| "tick_states env (ev # evs) st =
     (if is_tick ev st then [handle_event env ev st] else [])
       @ tick_states env evs (handle_event env ev st)"

text \<open>
  The player is running on the interval timer \<open>h\<close> of period \<open>p\<close> and has made \<open>k\<close>
  steps since it was started (the first preset counts as step 0).
\<close>

definition player_at :: "nat \<Rightarrow> nat \<Rightarrow> nat \<Rightarrow> app \<Rightarrow> bool" where
  "player_at h p k st \<longleftrightarrow>
     currentDemoStep st = k mod 4 + 1 \<and> map_of (timers st) h = Some (Interval p)
     \<and> autoDemoInterval st = Some h"

text \<open>
  What the page shows when the scenario under a key has been applied: the banner names
  its position and its display name, and the widgets hold its six values.
\<close>

definition showing :: "host \<Rightarrow> string \<Rightarrow> app \<Rightarrow> bool" where
  "showing env k st =
     (case map_of presets k of
        None \<Rightarrow> False
      | Some p \<Rightarrow>
          demoScenario_text (demo st) =
            [S ''Scenario '', N (indexOf demoScenarios k + 1), S ''/4: '', S (name p)]
          \<and> widgets st =
            \<lparr>hourInput = ToString env (Num (preset.hour p)),
             dayInput = ToString env (Num (preset.day p)),
             lightInput = ToString env (Num (preset.light p)),
             tempInput = ToString env (Num (preset.temp p)),
             pirInput = preset.pir p,
             phoneInput = preset.phone p\<rparr>)"

text \<open>
  The browser gives out fresh handles: no registered timer has a handle beyond the last
  one given out. This holds when the page is loaded and is kept by every handler.
\<close>

definition timers_ok :: "app \<Rightarrow> bool" where
  "timers_ok st = list_all (\<lambda>t. fst t \<le> lastHandle st) (timers st)"

text \<open>Concrete inputs: a host, and a page that has just been loaded.\<close>

definition sample_host :: host where
  "sample_host =
     \<lparr>parseFloat =
        (\<lambda>s. case map_of [(''9'', Fin 9), (''2'', Fin 2), (''550'', Fin 550),
                           (''23'', Fin 23)] s of
               Some v \<Rightarrow> v
             | None \<Rightarrow> NaN),
      ToString =
        (\<lambda>v. if v = Num (Fin 9) then ''9'' else if v = Num (Fin 2) then ''2''
              else if v = Num (Fin 550) then ''550'' else if v = Num (Fin 23) then ''23''
              else ''0'')\<rparr>"

definition sample_widgets :: widgets where
  "sample_widgets =
     \<lparr>hourInput = ''9'', dayInput = ''2'', lightInput = ''550'', tempInput = ''23'',
      pirInput = True, phoneInput = True\<rparr>"

definition sample_page :: app where
  "sample_page =
     initial sample_widgets
       \<lparr>hourValue_text = [], dayValue_text = [], lightValue_text = [], tempValue_text = []\<rparr>
       \<lparr>resultsContainer_html = None, inferenceTime_text = [],
        metricsContainer_display = ''none'', avgLatency_text = [],
        totalPredictions_text = [], currentProvider_text = []\<rparr>
       \<lparr>energyNudgeContainer_html = None, energySummaryContainer_display = ''none'',
        lightsSavings_text = [], fanSavings_text = [], acSavings_text = [],
        totalSavings_text = [], totalCost_text = [], co2Saved_text = [],
        treesEquiv_text = [], monthlySavings_text = [], annualSavings_text = [],
        annualCO2_text = []\<rparr>
       \<lparr>demoBanner_display = ''none'', autoDemoBtn_display = ''none'',
        demoScenario_text = []\<rparr>"

definition sample_loaded :: app where
  "sample_loaded = sample_page\<lparr>session := Some \<lparr>executionProviders = [''wasm'']\<rparr>\<rparr>"

definition label_answer :: "int \<Rightarrow> response" where
  "label_answer n = Inr [(''output_label'', [BigIntV n])]"

section \<open>Evaluating the arithmetic\<close>

lemmas fl_eval = fl_def round_to_def ilog2_def rne_def lit_def compute_bitlen Let_def

lemma js_seq_one: "js_seq x (Fin 1) \<longleftrightarrow> x = Fin 1"
  by (auto simp: js_seq_def)

lemma lit_small: "lit 2 = Fin 2" "lit 20 = Fin 20" "lit 1 = Fin 1" "lit 0 = Fin 0"
  by (simp_all add: fl_eval)

lemma fround_one: "fround (Fin 1) = Fin 1"
  by (simp add: fl_eval)

lemma fround_zero: "fround (Fin 0) = Fin 0"
  by (simp add: fl_eval)

lemma kwh_consts:
  "js_div (js_mul LIGHTS_POWER (Fin 2)) (Fin 1000) = lit 0.02"
  "js_div (js_mul FAN_POWER (Fin 2)) (Fin 1000) = lit 0.15"
  "js_div (js_mul AC_POWER (Fin 2)) (Fin 1000) = Fin 1"
  by (simp_all add: LIGHTS_POWER_def FAN_POWER_def AC_POWER_def fl_eval)

lemma sum_117: "js_add (js_add (lit 0.02) (lit 0.15)) (Fin 1) = lit 1.17"
  by (simp add: fl_eval)

lemma sum_000: "js_add (js_add (Fin 0) (Fin 0)) (Fin 0) = Fin 0"
  by (simp add: fl_eval)

text \<open>For the values the estimator adds up, the grouping of the sum makes no difference.\<close>

lemma sum_grouping:
  "l = Fin 0 \<or> l = lit 0.02 \<Longrightarrow> f = Fin 0 \<or> f = lit 0.15 \<Longrightarrow> a = Fin 0 \<or> a = Fin 1 \<Longrightarrow>
   js_add (js_add l f) a = js_add l (js_add f a)"
  by (elim disjE; simp add: fl_eval)

section \<open>Rounding is monotone\<close>

lemma rne_of_int: "rne (of_int n) = n"
  by (simp add: rne_def)

lemma rne_cases: "rne a = \<lfloor>a\<rfloor> \<or> rne a = \<lfloor>a\<rfloor> + 1"
  by (simp add: rne_def Let_def)

lemma rne_mono: "a \<le> b \<Longrightarrow> rne a \<le> rne b"
proof -
  assume ab: "a \<le> b"
  then have fl: "\<lfloor>a\<rfloor> \<le> \<lfloor>b\<rfloor>" by (rule floor_mono)
  show ?thesis
  proof (cases "\<lfloor>a\<rfloor> = \<lfloor>b\<rfloor>")
    case True
    with ab show ?thesis by (auto simp: rne_def Let_def)
  next
    case False
    with fl have "\<lfloor>a\<rfloor> + 1 \<le> \<lfloor>b\<rfloor>" by simp
    with rne_cases [of a] rne_cases [of b] show ?thesis by auto
  qed
qed

lemma floor_minus_nonint:
  fixes a :: real
  assumes "a \<notin> \<int>"
  shows "\<lfloor>- a\<rfloor> = - \<lfloor>a\<rfloor> - 1"
proof (rule floor_unique)
  have ne: "of_int \<lfloor>a\<rfloor> \<noteq> a" using assms by (metis Ints_of_int)
  have "of_int \<lfloor>a\<rfloor> \<le> a" by simp
  with ne have lt: "of_int \<lfloor>a\<rfloor> < a" by linarith
  have up: "a < of_int \<lfloor>a\<rfloor> + 1" by linarith
  from up show "of_int (- \<lfloor>a\<rfloor> - 1) \<le> - a" by simp linarith
  from lt show "- a < of_int (- \<lfloor>a\<rfloor> - 1) + 1" by simp
qed

lemma rne_minus: "rne (- a) = - rne a"
proof (cases "a \<in> \<int>")
  case True
  then obtain n where "a = of_int n" by (auto elim: Ints_cases)
  then show ?thesis using rne_of_int [of n] rne_of_int [of "- n"] by simp
next
  case False
  note f = floor_minus_nonint [OF False]
  have e: "even (- \<lfloor>a\<rfloor> - 1) \<longleftrightarrow> odd \<lfloor>a\<rfloor>" by simp
  have d: "- a - of_int (- \<lfloor>a\<rfloor> - 1) = 1 - (a - of_int \<lfloor>a\<rfloor>)" by simp
  show ?thesis
    unfolding rne_def Let_def f e d
    by auto
qed

lemma rne_nonneg: "0 \<le> a \<Longrightarrow> 0 \<le> rne a"
  using rne_mono [of 0 a] rne_of_int [of 0] by simp


lemma bitlen_pos: "0 < n \<Longrightarrow> 1 \<le> bitlen n"
  using bitlen_eq_zero_iff [of n] bitlen_nonneg [of n] by linarith

lemma ilog2_bounds_ge1:
  assumes "1 \<le> x"
  shows "2 powi (ilog2 x) \<le> x" and "x < 2 powi (ilog2 x + 1)"
proof -
  let ?n = "\<lfloor>x\<rfloor>"
  have n: "1 \<le> ?n" using assms by simp
  then have pos: "0 < ?n" by simp
  note b = bitlen_bounds [OF pos]
  have bl: "1 \<le> bitlen ?n" using bitlen_pos [OF pos] .
  have i: "ilog2 x = bitlen ?n - 1" using assms by (simp add: ilog2_def)
  have "(2::real) powi (bitlen ?n - 1) = 2 ^ nat (bitlen ?n - 1)"
    using bl by (simp add: power_int_nonneg_exp)
  also have "\<dots> = of_int (2 ^ nat (bitlen ?n - 1))" by simp
  also have "\<dots> \<le> of_int ?n" using b by (simp only: of_int_le_iff)
  also have "\<dots> \<le> x" by simp
  finally show "2 powi (ilog2 x) \<le> x" by (simp only: i)
  have "x < of_int (?n + 1)" by simp
  also have "\<dots> \<le> of_int (2 ^ nat (bitlen ?n))"
    using b by (simp only: of_int_le_iff) simp
  also have "\<dots> = (2::real) ^ nat (bitlen ?n)" by simp
  also have "\<dots> = 2 powi (bitlen ?n)"
    using bl by (simp add: power_int_nonneg_exp)
  finally show "x < 2 powi (ilog2 x + 1)" by (simp add: i)
qed

lemma powi_neg: "0 \<le> k \<Longrightarrow> (2::real) powi (- k) = 1 / 2 ^ nat k"
  by (simp add: power_int_minus power_int_nonneg_exp divide_inverse)

lemma ilog2_bounds_lt1:
  assumes "0 < x" "x < 1"
  shows "2 powi (ilog2 x) \<le> x" and "x < 2 powi (ilog2 x + 1)"
proof -
  let ?y = "1 / x"
  let ?m = "\<lceil>?y\<rceil> - 1"
  have y1: "1 < ?y" using assms by simp
  have m: "of_int ?m < ?y" "?y \<le> of_int ?m + 1" by linarith+
  have mpos: "0 < ?m" using y1 by linarith
  note b = bitlen_bounds [OF mpos]
  have bl: "1 \<le> bitlen ?m" using bitlen_pos [OF mpos] .
  have i: "ilog2 x = - bitlen ?m" using assms by (simp add: ilog2_def)
  have up: "?y \<le> 2 ^ nat (bitlen ?m)"
  proof -
    have "?m + 1 \<le> 2 ^ nat (bitlen ?m)" using b by simp
    then have "(of_int (?m + 1) :: real) \<le> of_int (2 ^ nat (bitlen ?m))"
      by (simp only: of_int_le_iff)
    moreover have "(of_int (?m + 1) :: real) = of_int ?m + 1" by (simp only: of_int_add of_int_1)
    moreover have "(of_int (2 ^ nat (bitlen ?m)) :: real) = 2 ^ nat (bitlen ?m)"
      by (simp only: of_int_power of_int_numeral)
    ultimately show ?thesis using m(2) by linarith
  qed
  have lo: "2 ^ nat (bitlen ?m - 1) < ?y"
  proof -
    have "(of_int (2 ^ nat (bitlen ?m - 1)) :: real) \<le> of_int ?m"
      using b by (simp only: of_int_le_iff)
    moreover have "(of_int (2 ^ nat (bitlen ?m - 1)) :: real) = 2 ^ nat (bitlen ?m - 1)"
      by (simp only: of_int_power of_int_numeral)
    ultimately show ?thesis using m(1) by linarith
  qed
  have "(2::real) powi (- bitlen ?m) = 1 / 2 ^ nat (bitlen ?m)"
    using bl by (simp add: power_int_minus power_int_nonneg_exp divide_inverse)
  also have "\<dots> \<le> x"
    using up assms(1) by (simp add: field_simps)
  finally show "2 powi (ilog2 x) \<le> x" by (simp only: i)
  have "x < 1 / 2 ^ nat (bitlen ?m - 1)"
    using lo assms(1) by (simp add: field_simps)
  also have "\<dots> = (2::real) powi (- (bitlen ?m - 1))"
  proof -
    have k: "0 \<le> bitlen ?m - 1" using bl by simp
    show ?thesis using powi_neg [OF k] by (rule sym)
  qed
  also have "- (bitlen ?m - 1) = ilog2 x + 1" by (simp add: i)
  finally show "x < 2 powi (ilog2 x + 1)" .
qed

lemma ilog2_bounds:
  assumes "0 < x"
  shows "2 powi (ilog2 x) \<le> x" and "x < 2 powi (ilog2 x + 1)"
  using ilog2_bounds_ge1 [of x] ilog2_bounds_lt1 [of x] assms
  by (cases "1 \<le> x"; simp)+

lemma ilog2_mono:
  assumes "0 < x" "x \<le> y"
  shows "ilog2 x \<le> ilog2 y"
proof -
  have "0 < y" using assms by simp
  from ilog2_bounds(1) [OF assms(1)] assms(2) ilog2_bounds(2) [OF this]
  have "(2::real) powi (ilog2 x) < 2 powi (ilog2 y + 1)" by linarith
  then have "ilog2 x < ilog2 y + 1"
    by (metis linorder_not_less power_int_increasing one_le_numeral)
  then show ?thesis by simp
qed


lemma quantum_pos: "0 < quantum p emin x"
  by (simp add: quantum_def)

lemma quantum_minus: "quantum p emin (- x) = quantum p emin x"
  by (simp add: quantum_def)

lemma round_to_rounded:
  "round_to p emin emax x =
     (if 2 powi (emax + 1) \<le> \<bar>rounded p emin x\<bar>
      then (if 0 < x then PosInf else NegInf) else Fin (rounded p emin x))"
  by (simp add: round_to_def rounded_def quantum_def Let_def not_le)

lemma rounded_minus: "rounded p emin (- x) = - rounded p emin x"
  by (simp add: rounded_def quantum_minus rne_minus)

lemma rounded_nonneg: "0 \<le> x \<Longrightarrow> 0 \<le> rounded p emin x"
  using quantum_pos [of p emin x] rne_nonneg [of "x / quantum p emin x"]
  by (simp add: rounded_def)

lemma powi_ratio: "(2::real) powi a / 2 powi b = 2 powi (a - b)"
  by (simp add: power_int_diff)

lemma powi_prod: "(2::real) powi a * 2 powi b = 2 powi (a + b)"
  using power_int_add [of "2::real" a b] by simp

lemma rounded_mono_pos:
  assumes "0 < x" "x \<le> y" "1 \<le> p"
  shows "rounded p emin x \<le> rounded p emin y"
proof -
  have ypos: "0 < y" using assms by simp
  let ?ex = "max (ilog2 x) emin" and ?ey = "max (ilog2 y) emin"
  let ?qx = "quantum p emin x" and ?qy = "quantum p emin y"
  have qx: "?qx = 2 powi (?ex - int p + 1)" using assms(1) by (simp add: quantum_def)
  have qy: "?qy = 2 powi (?ey - int p + 1)" using ypos by (simp add: quantum_def)
  have rx: "rounded p emin x = of_int (rne (x / ?qx)) * ?qx"
    using assms(1) by (simp add: rounded_def)
  have ry: "rounded p emin y = of_int (rne (y / ?qy)) * ?qy"
    using ypos by (simp add: rounded_def)
  have le: "?ex \<le> ?ey" using ilog2_mono [OF assms(1,2)] by simp
  show ?thesis
  proof (cases "?ex = ?ey")
    case True
    then have q: "?qx = ?qy" by (simp add: qx qy)
    have "x / ?qy \<le> y / ?qy"
      using assms(2) quantum_pos [of p emin y] by (simp add: divide_right_mono)
    then have "rne (x / ?qy) \<le> rne (y / ?qy)" by (rule rne_mono)
    then have "(of_int (rne (x / ?qy)) :: real) \<le> of_int (rne (y / ?qy))" by simp
    then show ?thesis
      unfolding rx ry q using quantum_pos [of p emin y] by (simp add: mult_right_mono)
  next
    case False
    with le have lt: "?ex < ?ey" by linarith
    then have ey: "?ey = ilog2 y" by linarith
    have pp: "0 \<le> int p - 1" using assms(3) by simp
    \<comment> \<open>the larger one rounds to at least the start of its binade\<close>
    have "(2::real) powi ?ey \<le> y" using ilog2_bounds(1) [OF ypos] by (simp only: ey)
    then have "2 powi ?ey / ?qy \<le> y / ?qy"
      using quantum_pos [of p emin y] by (simp add: divide_right_mono)
    moreover have "2 powi ?ey / ?qy = of_int (2 ^ nat (int p - 1))"
    proof -
      have "2 powi ?ey / ?qy = (2::real) powi (?ey - (?ey - int p + 1))"
        unfolding qy by (rule powi_ratio)
      also have "?ey - (?ey - int p + 1) = int p - 1" by simp
      also have "(2::real) powi (int p - 1) = 2 ^ nat (int p - 1)"
        using pp by (simp add: power_int_nonneg_exp)
      finally show ?thesis by simp
    qed
    ultimately have "rne (of_int (2 ^ nat (int p - 1))) \<le> rne (y / ?qy)"
      using rne_mono by metis
    then have "(of_int (2 ^ nat (int p - 1)) :: real) \<le> of_int (rne (y / ?qy))"
      by (simp only: rne_of_int of_int_le_iff)
    then have "of_int (2 ^ nat (int p - 1)) * ?qy \<le> rounded p emin y"
      unfolding ry using quantum_pos [of p emin y] by (simp add: mult_right_mono)
    moreover have "of_int (2 ^ nat (int p - 1)) * ?qy = 2 powi ?ey"
    proof -
      have "(of_int (2 ^ nat (int p - 1)) :: real) = 2 powi (int p - 1)"
        using pp by (simp add: power_int_nonneg_exp)
      then have "of_int (2 ^ nat (int p - 1)) * ?qy = 2 powi (int p - 1) * 2 powi (?ey - int p + 1)"
        by (simp only: qy)
      also have "\<dots> = 2 powi ((int p - 1) + (?ey - int p + 1))"
        by (rule powi_prod)
      also have "(int p - 1) + (?ey - int p + 1) = ?ey" by simp
      finally show ?thesis .
    qed
    ultimately have big: "2 powi ?ey \<le> rounded p emin y" by simp
    \<comment> \<open>the smaller one rounds to at most the end of its binade\<close>
    have "x < 2 powi (ilog2 x + 1)" using ilog2_bounds(2) [OF assms(1)] .
    also have "\<dots> \<le> 2 powi (?ex + 1)" by (rule power_int_increasing) simp_all
    finally have "x \<le> 2 powi (?ex + 1)" by simp
    then have "x / ?qx \<le> 2 powi (?ex + 1) / ?qx"
      using quantum_pos [of p emin x] by (simp add: divide_right_mono)
    moreover have "2 powi (?ex + 1) / ?qx = of_int (2 ^ p)"
    proof -
      have "2 powi (?ex + 1) / ?qx = (2::real) powi ((?ex + 1) - (?ex - int p + 1))"
        unfolding qx by (rule powi_ratio)
      also have "(?ex + 1) - (?ex - int p + 1) = int p" by simp
      finally show ?thesis by simp
    qed
    ultimately have "rne (x / ?qx) \<le> rne (of_int (2 ^ p))"
      using rne_mono by metis
    then have "(of_int (rne (x / ?qx)) :: real) \<le> of_int (2 ^ p)"
      by (simp only: rne_of_int of_int_le_iff)
    then have "rounded p emin x \<le> of_int (2 ^ p) * ?qx"
      unfolding rx using quantum_pos [of p emin x] by (simp add: mult_right_mono)
    moreover have "of_int (2 ^ p) * ?qx = 2 powi (?ex + 1)"
    proof -
      have "(of_int (2 ^ p) :: real) = 2 powi (int p)" by simp
      then have "of_int (2 ^ p) * ?qx = 2 powi (int p) * 2 powi (?ex - int p + 1)"
        by (simp only: qx)
      also have "\<dots> = 2 powi (int p + (?ex - int p + 1))"
        by (rule powi_prod)
      also have "int p + (?ex - int p + 1) = ?ex + 1" by simp
      finally show ?thesis .
    qed
    ultimately have small: "rounded p emin x \<le> 2 powi (?ex + 1)" by simp
    have "?ex + 1 \<le> ?ey" using lt by linarith
    then have "(2::real) powi (?ex + 1) \<le> 2 powi ?ey"
      by (rule power_int_increasing) simp
    with small big show ?thesis by linarith
  qed
qed


lemma rounded_nonpos: "x \<le> 0 \<Longrightarrow> rounded p emin x \<le> 0"
  using rounded_nonneg [of "- x" p emin] by (simp add: rounded_minus)

lemma rounded_mono:
  assumes "x \<le> y" "1 \<le> p"
  shows "rounded p emin x \<le> rounded p emin y"
proof -
  consider "0 < x" | "x \<le> 0" "0 \<le> y" | "y < 0" by linarith
  then show ?thesis
  proof cases
    case 1
    then show ?thesis using rounded_mono_pos [OF _ assms] by simp
  next
    case 2
    then show ?thesis
      using rounded_nonpos [of x p emin] rounded_nonneg [of y p emin] by linarith
  next
    case 3
    then have "0 < - y" "- y \<le> - x" using assms(1) by simp_all
    from rounded_mono_pos [OF this assms(2), of emin] show ?thesis
      by (simp add: rounded_minus)
  qed
qed

lemma js_le_simps:
  "js_le (Fin a) (Fin b) \<longleftrightarrow> a \<le> b"
  "js_le NegInf z \<longleftrightarrow> z \<noteq> NaN"
  "js_le z PosInf \<longleftrightarrow> z \<noteq> NaN"
  "js_le NaN z \<longleftrightarrow> False"
  "js_le z NaN \<longleftrightarrow> False"
  "js_le PosInf z \<longleftrightarrow> z = PosInf"
  "js_le z NegInf \<longleftrightarrow> z = NegInf"
  by (cases z; auto simp: js_le_def js_seq_def)+

lemma round_to_not_NaN: "round_to p emin emax x \<noteq> NaN"
  by (simp add: round_to_rounded)

lemma round_to_mono:
  assumes "x \<le> y" "1 \<le> p"
  shows "js_le (round_to p emin emax x) (round_to p emin emax y)"
proof -
  note m = rounded_mono [OF assms, of emin]
  have px: "0 < x \<Longrightarrow> 0 \<le> rounded p emin x" using rounded_nonneg [of x p emin] by simp
  have nx: "\<not> 0 < x \<Longrightarrow> rounded p emin x \<le> 0" using rounded_nonpos [of x p emin] by simp
  have py: "0 < y \<Longrightarrow> 0 \<le> rounded p emin y" using rounded_nonneg [of y p emin] by simp
  have ny: "\<not> 0 < y \<Longrightarrow> rounded p emin y \<le> 0" using rounded_nonpos [of y p emin] by simp
  have B: "(0::real) < 2 powi (emax + 1)" by simp
  show ?thesis
    unfolding round_to_rounded
    using m px nx py ny B assms(1)
    by (auto simp: js_le_simps)
qed

lemma fl_mono: "x \<le> y \<Longrightarrow> js_le (fl x) (fl y)"
  unfolding fl_def by (rule round_to_mono) simp_all

lemma fl_not_NaN: "fl x \<noteq> NaN"
  by (simp add: fl_def round_to_not_NaN)

lemma js_mul_mono:
  assumes "0 < c" "js_le a b"
  shows "js_le (js_mul a (Fin c)) (js_mul b (Fin c))"
proof (cases a)
  case NaN
  with assms show ?thesis by (simp add: js_le_simps)
next
  case NegInf
  with assms show ?thesis
    by (cases b) (simp_all add: js_le_simps inf_of_sign_def fl_not_NaN)
next
  case (Fin x)
  with assms show ?thesis
    by (cases b) (simp_all add: js_le_simps inf_of_sign_def fl_not_NaN fl_mono)
next
  case PosInf
  with assms show ?thesis
    by (cases b) (simp_all add: js_le_simps inf_of_sign_def)
qed

lemma Number_of_BigInt_is_one: "Number_of_BigInt n = Fin 1 \<longleftrightarrow> n = 1"
proof
  assume e: "Number_of_BigInt n = Fin 1"
  have one: "fl 1 = Fin 1" and two: "fl 2 = Fin 2" and zero: "fl 0 = Fin 0"
    by (simp_all add: fl_eval)
  show "n = 1"
  proof (rule ccontr)
    assume "n \<noteq> 1"
    then consider "n \<le> 0" | "2 \<le> n" by linarith
    then show False
    proof cases
      case 1
      then have "(of_int n :: real) \<le> 0" by simp
      from fl_mono [OF this] e show False
        by (simp add: Number_of_BigInt_def zero js_le_simps)
    next
      case 2
      then have "(2 :: real) \<le> of_int n" by simp
      from fl_mono [OF this] e show False
        by (simp add: Number_of_BigInt_def two js_le_simps)
    qed
  qed
next
  assume "n = 1"
  then show "Number_of_BigInt n = Fin 1" by (simp add: Number_of_BigInt_def fl_eval)
qed

section \<open>The projection is monotone\<close>

lemma lit_values:
  "lit 0.3 = Fin (5404319552844595 / 18014398509481984)"
  "lit 0.92 = Fin (8286623314361713 / 9007199254740992)"
  "lit 0.453592 = Fin (1021398381089119 / 2251799813685248)"
  "lit 1.17 = Fin (658651445502935 / 562949953421312)"
  by (simp_all add: fl_eval)

lemma js_mul_mono_consts:
  assumes "js_le a b"
  shows "js_le (js_mul a (Fin 4)) (js_mul b (Fin 4))"
    and "js_le (js_mul a (Fin 100)) (js_mul b (Fin 100))"
    and "js_le (js_mul a (Fin 30)) (js_mul b (Fin 30))"
    and "js_le (js_mul a (Fin 365)) (js_mul b (Fin 365))"
    and "js_le (js_mul a (lit 0.3)) (js_mul b (lit 0.3))"
    and "js_le (js_mul a (lit 0.92)) (js_mul b (lit 0.92))"
    and "js_le (js_mul a (lit 0.453592)) (js_mul b (lit 0.453592))"
  unfolding lit_values
  by (rule js_mul_mono [OF _ assms], simp)+

lemma projection_mono:
  assumes "js_le (totalKwh sv1) (totalKwh sv2)"
  shows "js_le (dailySavingsPerRoom sv1) (dailySavingsPerRoom sv2)"
    and "js_le (monthlySavings sv1) (monthlySavings sv2)"
    and "js_le (annualSavings sv1) (annualSavings sv2)"
proof -
  show d: "js_le (dailySavingsPerRoom sv1) (dailySavingsPerRoom sv2)"
    unfolding dailySavingsPerRoom_def predictionsPerDay_def optimizationRate_def
    by (intro js_mul_mono_consts assms)
  show "js_le (monthlySavings sv1) (monthlySavings sv2)"
    unfolding monthlySavings_def roomsCount_def daysPerMonth_def
    by (intro js_mul_mono_consts d)
  show "js_le (annualSavings sv1) (annualSavings sv2)"
    unfolding annualSavings_def roomsCount_def daysPerYear_def
    by (intro js_mul_mono_consts d)
qed

lemma co2_mono:
  assumes "js_le (totalKwh (calculateEnergySavings s1)) (totalKwh (calculateEnergySavings s2))"
  shows "js_le (co2Saved (calculateEnergySavings s1)) (co2Saved (calculateEnergySavings s2))"
    and "js_le (annualCO2 (calculateEnergySavings s1)) (annualCO2 (calculateEnergySavings s2))"
proof -
  have c: "co2Saved (calculateEnergySavings s) =
      js_mul (js_mul (totalKwh (calculateEnergySavings s)) (lit 0.92)) (lit 0.453592)" for s
    by (simp add: calculateEnergySavings_def Let_def co2PerKwh_def)
  show 1: "js_le (co2Saved (calculateEnergySavings s1)) (co2Saved (calculateEnergySavings s2))"
    unfolding c by (intro js_mul_mono_consts assms)
  show "js_le (annualCO2 (calculateEnergySavings s1)) (annualCO2 (calculateEnergySavings s2))"
    unfolding annualCO2_def roomsCount_def daysPerYear_def predictionsPerDay_def
      optimizationRate_def
    by (intro js_mul_mono_consts 1)
qed

section \<open>Facts about single runs\<close>

lemmas show_defs = displayResults_def generateEnergyNudge_def updatePerformanceMetrics_def
  displayEnergySummary_def

lemma engineCalls_displayResults:
  "engineCalls (displayResults env label prob lat st) = engineCalls st"
  by (simp add: show_defs Let_def)

lemma succeeds_iff:
  "succeeds answer \<longleftrightarrow> (\<exists>res d. answer = Inr res \<and> map_of res ''output_label'' = Some d)"
  by (auto simp: succeeds_def split: sum.splits)

lemma runPrediction_success:
  assumes "session st = Some sess" "succeeds answer"
  shows "predictionCount (runPrediction env now0 now1 answer st) = predictionCount st + 1"
    and "totalLatency (runPrediction env now0 now1 answer st) =
           js_add (totalLatency st) (js_sub now1 now0)"
    and "avgLatency_text (results (runPrediction env now0 now1 answer st)) =
           [F 2 (js_div (js_add (totalLatency st) (js_sub now1 now0))
                        (Fin (real (predictionCount st + 1)))), S '' ms'']"
    and "session (runPrediction env now0 now1 answer st) = session st"
    and "length (engineCalls (runPrediction env now0 now1 answer st)) =
           length (engineCalls st) + 1"
  using assms
  by (auto simp: succeeds_iff runPrediction_def Let_def show_defs)

lemma runPrediction_failure:
  assumes "session st = Some sess" "\<not> succeeds answer"
  shows "runPrediction env now0 now1 answer st =
           st\<lparr>engineCalls := engineCalls (runPrediction env now0 now1 answer st),
              alerts := alerts st @ [''Prediction failed! Check console for details.'']\<rparr>"
    and "length (engineCalls (runPrediction env now0 now1 answer st)) =
           length (engineCalls st) + 1"
  using assms
  by (auto simp: succeeds_def runPrediction_def Let_def alert_def
      split: sum.splits option.splits)

lemma applyPreset_unknown_key:
  "presetName \<notin> set (map fst presets) \<Longrightarrow> presetName \<notin> set Object_prototype_keys \<Longrightarrow>
   applyPreset env presetName st = st"
  by (simp add: applyPreset_def presets_get_def map_of_eq_None_iff[THEN iffD2])

lemma runPrediction_failure_fields:
  assumes "session st = Some sess" "\<not> succeeds answer"
  shows "predictionCount (runPrediction env now0 now1 answer st) = predictionCount st"
    and "totalLatency (runPrediction env now0 now1 answer st) = totalLatency st"
    and "results (runPrediction env now0 now1 answer st) = results st"
    and "session (runPrediction env now0 now1 answer st) = session st"
    and "energy (runPrediction env now0 now1 answer st) = energy st"
  using assms
  by (auto simp: succeeds_def runPrediction_def Let_def alert_def
      split: sum.splits option.splits)

lemma Number_of_BigInt_small:
  "Number_of_BigInt 1 = Fin 1" "Number_of_BigInt 0 = Fin 0" "Number_of_BigInt 2 = Fin 2"
  "Number_of_BigInt (- 1) = Fin (- 1)"
  by (simp_all add: Number_of_BigInt_def fl_eval)

section \<open>Facts about runs of predictions\<close>

lemma latencies_Cons:
  "latencies ((now0, now1, answer) # rest) =
     (if succeeds answer then js_sub now1 now0 # latencies rest else latencies rest)"
  by (simp add: latencies_def latency_of_def)

lemma latencies_Nil: "latencies [] = []"
  by (simp add: latencies_def)

lemma runPredictions_metrics:
  "session st = Some sess \<Longrightarrow>
   predictionCount (runPredictions env as st) = predictionCount st + length (latencies as)
   \<and> totalLatency (runPredictions env as st) = foldl js_add (totalLatency st) (latencies as)
   \<and> length (engineCalls (runPredictions env as st)) = length (engineCalls st) + length as
   \<and> session (runPredictions env as st) = session st"
proof (induction as arbitrary: st)
  case Nil
  then show ?case by (simp add: latencies_Nil)
next
  case (Cons a as)
  obtain now0 now1 answer where a: "a = (now0, now1, answer)" by (cases a)
  let ?st = "runPrediction env now0 now1 answer st"
  show ?case
  proof (cases "succeeds answer")
    case True
    note s = runPrediction_success [OF Cons.prems True, of env now0 now1]
    from s(4) Cons.prems have "session ?st = Some sess" by simp
    from Cons.IH [OF this] show ?thesis
      by (simp add: a latencies_Cons True s)
  next
    case False
    note f = runPrediction_failure_fields [OF Cons.prems False, of env now0 now1]
    note g = runPrediction_failure(2) [OF Cons.prems False, of env now0 now1]
    from f(4) Cons.prems have "session ?st = Some sess" by simp
    from Cons.IH [OF this] show ?thesis
      by (simp add: a latencies_Cons False f g)
  qed
qed

text \<open>Once the average shown is that of the two counters, later runs keep it so.\<close>

lemma runPredictions_avg_kept:
  "session st = Some sess \<Longrightarrow>
   avgLatency_text (results st) =
     [F 2 (js_div (totalLatency st) (Fin (real (predictionCount st)))), S '' ms''] \<Longrightarrow>
   avgLatency_text (results (runPredictions env as st)) =
     [F 2 (js_div (totalLatency (runPredictions env as st))
                  (Fin (real (predictionCount (runPredictions env as st))))), S '' ms'']"
proof (induction as arbitrary: st)
  case Nil
  then show ?case by simp
next
  case (Cons a as)
  obtain now0 now1 answer where a: "a = (now0, now1, answer)" by (cases a)
  let ?st = "runPrediction env now0 now1 answer st"
  show ?case
  proof (cases "succeeds answer")
    case True
    note s = runPrediction_success [OF Cons.prems(1) True, of env now0 now1]
    from s(4) Cons.prems have 1: "session ?st = Some sess" by simp
    have 2: "avgLatency_text (results ?st) =
        [F 2 (js_div (totalLatency ?st) (Fin (real (predictionCount ?st)))), S '' ms'']"
      by (simp only: s)
    from Cons.IH [OF 1 2] show ?thesis by (simp add: a)
  next
    case False
    note f = runPrediction_failure_fields [OF Cons.prems(1) False, of env now0 now1]
    from f(4) Cons.prems have 1: "session ?st = Some sess" by simp
    have 2: "avgLatency_text (results ?st) =
        [F 2 (js_div (totalLatency ?st) (Fin (real (predictionCount ?st)))), S '' ms'']"
      using Cons.prems(2) by (simp only: f)
    from Cons.IH [OF 1 2] show ?thesis by (simp add: a)
  qed
qed

lemma runPredictions_avg:
  "session st = Some sess \<Longrightarrow> latencies as \<noteq> [] \<Longrightarrow>
   avgLatency_text (results (runPredictions env as st)) =
     [F 2 (js_div (totalLatency (runPredictions env as st))
                  (Fin (real (predictionCount (runPredictions env as st))))), S '' ms'']"
proof (induction as arbitrary: st)
  case Nil
  then show ?case by (simp add: latencies_Nil)
next
  case (Cons a as)
  obtain now0 now1 answer where a: "a = (now0, now1, answer)" by (cases a)
  let ?st = "runPrediction env now0 now1 answer st"
  show ?case
  proof (cases "succeeds answer")
    case True
    note s = runPrediction_success [OF Cons.prems(1) True, of env now0 now1]
    from s(4) Cons.prems have 1: "session ?st = Some sess" by simp
    have 2: "avgLatency_text (results ?st) =
        [F 2 (js_div (totalLatency ?st) (Fin (real (predictionCount ?st)))), S '' ms'']"
      by (simp only: s)
    from runPredictions_avg_kept [OF 1 2] show ?thesis by (simp add: a)
  next
    case False
    note f = runPrediction_failure_fields [OF Cons.prems(1) False, of env now0 now1]
    from f(4) Cons.prems have 1: "session ?st = Some sess" by simp
    from Cons.prems(2) have 2: "latencies as \<noteq> []" by (simp add: a latencies_Cons False)
    from Cons.IH [OF 1 2] show ?thesis by (simp add: a)
  qed
qed

section \<open>Facts about the scenario player\<close>

lemma demoScenarios_cases:
  "k \<in> set demoScenarios \<longleftrightarrow> k = ''empty'' \<or> k = ''morning'' \<or> k = ''evening'' \<or> k = ''weekend''"
  by (auto simp: demoScenarios_def)

lemma map_of_presets_scenarios:
  "k \<in> set demoScenarios \<Longrightarrow> \<exists>p. map_of presets k = Some p \<and> presets_get k = Some (Own p)"
  by (auto simp: demoScenarios_cases presets_get_def presets_def)

lemma applyPreset_own:
  assumes "presets_get k = Some (Own p)"
  shows "widgets (applyPreset env k st) =
          \<lparr>hourInput = ToString env (Num (preset.hour p)),
           dayInput = ToString env (Num (preset.day p)),
           lightInput = ToString env (Num (preset.light p)),
           tempInput = ToString env (Num (preset.temp p)),
           pirInput = preset.pir p, phoneInput = preset.phone p\<rparr>"
    and "timers (applyPreset env k st) = timers st @ [(Suc (lastHandle st), Timeout 500)]"
    and "lastHandle (applyPreset env k st) = Suc (lastHandle st)"
    and "currentDemoStep (applyPreset env k st) = currentDemoStep st"
    and "autoDemoInterval (applyPreset env k st) = autoDemoInterval st"
    and "demo (applyPreset env k st) = demo st"
  by (simp_all add: applyPreset_def assms Let_def updateSensorDisplays_def setTimeout_def)

lemma runDemoScenario_scenario:
  assumes "k \<in> set demoScenarios"
  shows "\<exists>st'. runDemoScenario env k st = Inr st' \<and> showing env k st'
           \<and> currentDemoStep st' = currentDemoStep st
           \<and> autoDemoInterval st' = autoDemoInterval st
           \<and> timers st' = timers st @ [(Suc (lastHandle st), Timeout 500)]
           \<and> lastHandle st' = Suc (lastHandle st)
           \<and> demoBanner_display (demo st') = demoBanner_display (demo st)
           \<and> autoDemoBtn_display (demo st') = autoDemoBtn_display (demo st)"
proof -
  from map_of_presets_scenarios [OF assms]
  obtain p where p: "map_of presets k = Some p" "presets_get k = Some (Own p)" by blast
  show ?thesis
    by (simp add: runDemoScenario_def p Let_def showing_def
        applyPreset_own [OF p(2)])
qed


lemma demoScenarios_nth:
  "i < 4 \<Longrightarrow> demoScenarios ! i \<in> set demoScenarios"
  by (rule nth_mem) (simp add: demoScenarios_def)

lemma map_of_append_old:
  "map_of ts h = Some v \<Longrightarrow> map_of (ts @ us) h = Some v"
  by (simp add: map_add_Some_iff)

lemma autoDemoTick_step:
  "\<exists>st'. autoDemoTick env st = Inr st'
      \<and> showing env (demoScenarios ! (if currentDemoStep st < 4 then currentDemoStep st else 0)) st'
      \<and> currentDemoStep st' = (if currentDemoStep st < 4 then currentDemoStep st else 0) + 1
      \<and> autoDemoInterval st' = autoDemoInterval st
      \<and> timers st' = timers st @ [(Suc (lastHandle st), Timeout 500)]
      \<and> lastHandle st' = Suc (lastHandle st)"
proof (cases "currentDemoStep st < 4")
  case True
  from runDemoScenario_scenario [OF demoScenarios_nth [OF True], of env st]
  obtain st1 where 1: "runDemoScenario env (demoScenarios ! currentDemoStep st) st = Inr st1"
    "showing env (demoScenarios ! currentDemoStep st) st1"
    "currentDemoStep st1 = currentDemoStep st" "autoDemoInterval st1 = autoDemoInterval st"
    "timers st1 = timers st @ [(Suc (lastHandle st), Timeout 500)]"
    "lastHandle st1 = Suc (lastHandle st)"
    by blast
  have len: "length demoScenarios = 4" by (simp add: demoScenarios_def)
  from True 1 show ?thesis
    by (simp add: autoDemoTick_def len showing_def split: option.splits)
next
  case False
  let ?s = "st\<lparr>currentDemoStep := 0\<rparr>"
  have z: "demoScenarios ! 0 \<in> set demoScenarios" by (simp add: demoScenarios_def)
  from runDemoScenario_scenario [OF z, of env ?s]
  obtain st1 where 1: "runDemoScenario env (demoScenarios ! 0) ?s = Inr st1"
    "showing env (demoScenarios ! 0) st1"
    "currentDemoStep st1 = 0" "autoDemoInterval st1 = autoDemoInterval st"
    "timers st1 = timers st @ [(Suc (lastHandle st), Timeout 500)]"
    "lastHandle st1 = Suc (lastHandle st)"
    by auto
  have len: "length demoScenarios = 4" by (simp add: demoScenarios_def)
  from False 1 show ?thesis
    by (simp add: autoDemoTick_def len showing_def Let_def split: option.splits)
qed

lemma map_of_fresh:
  "timers_ok st \<Longrightarrow> lastHandle st < h \<Longrightarrow> map_of (timers st) h = None"
  by (auto simp: timers_ok_def list_all_iff map_of_eq_None_iff)

lemma startAutoDemo_step:
  assumes "timers_ok st"
  shows "\<exists>st'. startAutoDemo env st = Inr st'
      \<and> showing env ''empty'' st'
      \<and> currentDemoStep st' = 1
      \<and> autoDemoInterval st' = Some (Suc (Suc (lastHandle st)))
      \<and> map_of (timers st') (Suc (Suc (lastHandle st))) = Some (Interval 7000)
      \<and> timers st' = timers st @ [(Suc (lastHandle st), Timeout 500),
                                    (Suc (Suc (lastHandle st)), Interval 7000)]
      \<and> demoBanner_display (demo st') = ''block''"
proof -
  let ?s = "st\<lparr>demo := (demo st)\<lparr>demoBanner_display := ''block'',
                                   autoDemoBtn_display := ''none''\<rparr>,
               currentDemoStep := 0\<rparr>"
  have z: "demoScenarios ! 0 \<in> set demoScenarios" "demoScenarios ! 0 = ''empty''"
    by (simp_all add: demoScenarios_def)
  from runDemoScenario_scenario [OF z(1), of env ?s]
  obtain st1 where 1: "runDemoScenario env (demoScenarios ! 0) ?s = Inr st1"
    "showing env (demoScenarios ! 0) st1"
    "currentDemoStep st1 = 0" "autoDemoInterval st1 = autoDemoInterval st"
    "timers st1 = timers st @ [(Suc (lastHandle st), Timeout 500)]"
    "lastHandle st1 = Suc (lastHandle st)"
    "demoBanner_display (demo st1) = ''block''"
    by auto
  have f: "map_of (timers st) (Suc (Suc (lastHandle st))) = None"
    using map_of_fresh [OF assms, of "Suc (Suc (lastHandle st))"] by simp
  from 1 f show ?thesis
    by (simp add: startAutoDemo_def Let_def setInterval_def showing_def z(2) map_add_def
        split: option.splits)
qed


lemma cycle_arith:
  "(if k mod 4 + 1 < 4 then k mod 4 + 1 else 0) = Suc k mod 4" for k :: nat
  by presburger

lemma stopAutoDemo_step:
  assumes "autoDemoInterval st = Some h" "h \<noteq> 0"
  shows "autoDemoInterval (stopAutoDemo st) = None"
    and "currentDemoStep (stopAutoDemo st) = 0"
    and "map_of (timers (stopAutoDemo st)) h = None"
    and "fire env now0 now1 answer h (stopAutoDemo st) = None"
    and "demoBanner_display (demo (stopAutoDemo st)) = ''none''"
proof -
  have t: "timers (stopAutoDemo st) = filter (\<lambda>t. fst t \<noteq> h) (timers st)"
    using assms(1,2) by (simp add: stopAutoDemo_def Let_def clearInterval_def)
  show "autoDemoInterval (stopAutoDemo st) = None"
    using assms(1,2) by (simp add: stopAutoDemo_def Let_def clearInterval_def)
  show "currentDemoStep (stopAutoDemo st) = 0"
    by (simp add: stopAutoDemo_def Let_def)
  show m: "map_of (timers (stopAutoDemo st)) h = None"
    by (auto simp: t map_of_eq_None_iff)
  show "fire env now0 now1 answer h (stopAutoDemo st) = None"
    by (simp add: fire_def m)
  show "demoBanner_display (demo (stopAutoDemo st)) = ''none''"
    by (simp add: stopAutoDemo_def Let_def)
qed

lemma startAutoDemo_shows:
  "\<exists>st'. startAutoDemo env st = Inr st' \<and> showing env ''empty'' st'
      \<and> currentDemoStep st' = 1
      \<and> autoDemoInterval st' = Some (Suc (Suc (lastHandle st)))"
proof -
  let ?s = "st\<lparr>demo := (demo st)\<lparr>demoBanner_display := ''block'',
                                   autoDemoBtn_display := ''none''\<rparr>,
               currentDemoStep := 0\<rparr>"
  have z: "demoScenarios ! 0 \<in> set demoScenarios" "demoScenarios ! 0 = ''empty''"
    by (simp_all add: demoScenarios_def)
  from runDemoScenario_scenario [OF z(1), of env ?s]
  obtain st1 where 1: "runDemoScenario env (demoScenarios ! 0) ?s = Inr st1"
    "showing env (demoScenarios ! 0) st1"
    "currentDemoStep st1 = 0" "lastHandle st1 = Suc (lastHandle st)"
    by auto
  from 1 show ?thesis
    by (simp add: startAutoDemo_def Let_def setInterval_def showing_def z(2)
        split: option.splits)
qed

lemma runPrediction_frame:
  "currentDemoStep (runPrediction env now0 now1 answer st) = currentDemoStep st"
  "autoDemoInterval (runPrediction env now0 now1 answer st) = autoDemoInterval st"
  "timers (runPrediction env now0 now1 answer st) = timers st"
  "lastHandle (runPrediction env now0 now1 answer st) = lastHandle st"
  "widgets (runPrediction env now0 now1 answer st) = widgets st"
  "demo (runPrediction env now0 now1 answer st) = demo st"
  by (simp_all add: runPrediction_def alert_def Let_def show_defs
      split: option.splits sum.splits)

lemma applyPreset_frame:
  "currentDemoStep (applyPreset env k st) = currentDemoStep st"
  "autoDemoInterval (applyPreset env k st) = autoDemoInterval st"
  "map_of (timers st) h = Some v \<Longrightarrow> map_of (timers (applyPreset env k st)) h = Some v"
  by (simp_all add: applyPreset_def Let_def updateSensorDisplays_def setTimeout_def
      map_of_append_old split: option.splits)

lemma map_of_filter_other:
  "h \<noteq> h' \<Longrightarrow> map_of (filter (\<lambda>t. fst t \<noteq> h') ts) h = map_of ts h"
  by (induction ts) auto

lemma handle_event_tick:
  assumes "player_at h p k st" "is_tick ev st"
  shows "player_at h p (Suc k) (handle_event env ev st)"
    and "showing env (demoScenarios ! (Suc k mod 4)) (handle_event env ev st)"
proof -
  from assms(2) obtain h' now0 now1 answer p' where
    ev: "ev = Fire h' now0 now1 answer" and r: "map_of (timers st) h' = Some (Interval p')"
    by (auto simp: is_tick_def split: event.splits option.splits timer.splits)
  from autoDemoTick_step [of env st]
  obtain s1 where 1: "autoDemoTick env st = Inr s1"
    "showing env (demoScenarios ! (if currentDemoStep st < 4 then currentDemoStep st else 0)) s1"
    "currentDemoStep s1 = (if currentDemoStep st < 4 then currentDemoStep st else 0) + 1"
    "autoDemoInterval s1 = autoDemoInterval st"
    "timers s1 = timers st @ [(Suc (lastHandle st), Timeout 500)]"
    by blast
  have h: "handle_event env ev st = s1"
    by (simp add: ev fire_def r 1(1) after_def)
  have c: "currentDemoStep st = k mod 4 + 1" using assms(1) by (simp add: player_at_def)
  have i: "(if currentDemoStep st < 4 then currentDemoStep st else 0) = Suc k mod 4"
    unfolding c by (rule cycle_arith)
  show "showing env (demoScenarios ! (Suc k mod 4)) (handle_event env ev st)"
    using 1(2) by (simp only: h i)
  have cs: "currentDemoStep s1 = Suc k mod 4 + 1" using 1(3) by (simp only: i)
  have tm: "map_of (timers s1) h = Some (Interval p)"
    using assms(1) by (simp add: 1(5) player_at_def map_of_append_old)
  have ai: "autoDemoInterval s1 = Some h"
    using assms(1) by (simp add: 1(4) player_at_def)
  show "player_at h p (Suc k) (handle_event env ev st)"
    unfolding h player_at_def using cs tm ai by blast
qed

lemma handle_event_other:
  assumes "player_at h p k st" "\<not> is_tick ev st"
  shows "player_at h p k (handle_event env ev st)"
proof (cases ev)
  case (Fire h' now0 now1 answer)
  show ?thesis
  proof (cases "map_of (timers st) h'")
    case None
    then show ?thesis using assms(1) by (simp add: Fire fire_def)
  next
    case (Some t)
    with assms(2) Fire obtain d where t: "t = Timeout d"
      by (cases t) (auto simp: is_tick_def)
    have ne: "h \<noteq> h'" using assms(1) Some t by (auto simp: player_at_def)
    show ?thesis
      using assms(1)
      by (simp add: Fire fire_def Some t after_def player_at_def runPrediction_frame
          map_of_filter_other [OF ne])
  qed
next
  case (Predict now0 now1 answer)
  then show ?thesis using assms(1) by (simp add: player_at_def runPrediction_frame)
next
  case (Preset k)
  then show ?thesis using assms(1) by (simp add: player_at_def applyPreset_frame)
next
  case (Input w)
  then show ?thesis using assms(1) by (simp add: player_at_def updateSensorDisplays_def)
qed

lemma tick_states_cycle:
  assumes "player_at h p k st"
  shows "(\<forall>j < length (tick_states env evs st).
            showing env (demoScenarios ! ((k + Suc j) mod 4)) (tick_states env evs st ! j))
         \<and> player_at h p (k + length (tick_states env evs st)) (run_events env evs st)"
  using assms
proof (induction evs arbitrary: k st)
  case Nil
  then show ?case by simp
next
  case (Cons ev evs)
  let ?st = "handle_event env ev st"
  show ?case
  proof (cases "is_tick ev st")
    case True
    note t = handle_event_tick [OF Cons.prems True, of env]
    from Cons.IH [OF t(1)]
    have ih: "\<forall>j < length (tick_states env evs ?st).
            showing env (demoScenarios ! ((Suc k + Suc j) mod 4)) (tick_states env evs ?st ! j)"
      "player_at h p (Suc k + length (tick_states env evs ?st)) (run_events env evs ?st)"
      by blast+
    have "showing env (demoScenarios ! ((k + Suc j) mod 4)) (tick_states env (ev # evs) st ! j)"
      if "j < length (tick_states env (ev # evs) st)" for j
    proof (cases j)
      case 0
      then show ?thesis using t(2) True by simp
    next
      case (Suc i)
      with that True have "i < length (tick_states env evs ?st)" by simp
      with ih(1) have "showing env (demoScenarios ! ((Suc k + Suc i) mod 4))
          (tick_states env evs ?st ! i)" by blast
      then show ?thesis using True Suc by simp
    qed
    with ih(2) True show ?thesis by simp
  next
    case False
    note o = handle_event_other [OF Cons.prems False, of env]
    from Cons.IH [OF o] False show ?thesis by simp
  qed
qed

lemma tick_states_single:
  "map_of (timers st) h = Some (Interval p) \<Longrightarrow>
   tick_states env [Fire h now0 now1 answer] st = [handle_event env (Fire h now0 now1 answer) st]"
  by (simp add: is_tick_def)

text \<open>The condition on the handles holds at the start and is kept by every handler.\<close>

lemma timers_ok_initial: "timers_ok (initial w d r e m)"
  by (simp add: timers_ok_def initial_def)

lemma timers_ok_applyPreset: "timers_ok st \<Longrightarrow> timers_ok (applyPreset env k st)"
  by (auto simp: timers_ok_def applyPreset_def Let_def updateSensorDisplays_def setTimeout_def
      list_all_iff split: option.splits)

lemma timers_ok_runDemoScenario:
  "timers_ok st \<Longrightarrow> timers_ok (after (runDemoScenario env k st))"
  using timers_ok_applyPreset [of "st\<lparr>demo := (demo st)\<lparr>demoScenario_text := x\<rparr>\<rparr>" for x]
  by (auto simp: runDemoScenario_def after_def Let_def timers_ok_def split: option.splits)

lemma timers_ok_autoDemoTick: "timers_ok st \<Longrightarrow> timers_ok (after (autoDemoTick env st))"
  using autoDemoTick_step [of env st]
  by (fastforce simp: after_def timers_ok_def list_all_iff intro: le_SucI)

lemma timers_ok_startAutoDemo: "timers_ok st \<Longrightarrow> timers_ok (after (startAutoDemo env st))"
proof -
  assume ok: "timers_ok st"
  from startAutoDemo_step [OF ok, of env]
  obtain s0 where 0: "startAutoDemo env st = Inr s0"
    "timers s0 = timers st @ [(Suc (lastHandle st), Timeout 500),
                              (Suc (Suc (lastHandle st)), Interval 7000)]"
    by blast
  have l0: "lastHandle s0 = Suc (Suc (lastHandle st))"
    using 0(1)
    by (auto simp: startAutoDemo_def Let_def setInterval_def runDemoScenario_def
        applyPreset_def updateSensorDisplays_def setTimeout_def
        split: sum.splits option.splits)
  show ?thesis using ok by (auto simp: 0 l0 after_def timers_ok_def list_all_iff)
qed

lemma timers_ok_stopAutoDemo: "timers_ok st \<Longrightarrow> timers_ok (stopAutoDemo st)"
  by (auto simp: timers_ok_def stopAutoDemo_def Let_def clearInterval_def list_all_iff
      split: option.splits)

lemma timers_ok_handle_event: "timers_ok st \<Longrightarrow> timers_ok (handle_event env ev st)"
proof (cases ev)
  case (Fire h now0 now1 answer)
  assume ok: "timers_ok st"
  show ?thesis
  proof (cases "map_of (timers st) h")
    case None
    then show ?thesis using ok by (simp add: Fire fire_def)
  next
    case (Some t)
    show ?thesis
    proof (cases t)
      case (Interval p)
      then show ?thesis using timers_ok_autoDemoTick [OF ok, of env]
        by (simp add: Fire fire_def Some)
    next
      case (Timeout d)
      then show ?thesis using ok
        by (auto simp: Fire fire_def Some after_def timers_ok_def runPrediction_frame
            list_all_iff)
    qed
  qed
next
  case (Predict now0 now1 answer)
  assume "timers_ok st"
  then show ?thesis by (simp add: Predict timers_ok_def runPrediction_frame)
next
  case (Preset k)
  assume "timers_ok st"
  then show ?thesis by (simp add: Preset timers_ok_applyPreset)
next
  case (Input w)
  assume "timers_ok st"
  then show ?thesis by (simp add: Input timers_ok_def updateSensorDisplays_def)
qed

lemma timers_ok_sample: "timers_ok sample_loaded"
  by (simp add: timers_ok_def sample_loaded_def sample_page_def initial_def)

section \<open>The energy estimator: its formulas and its total\<close>

text \<open>
  Claim C2. For every sensor reading, \<^verbatim>\<open>calculateEnergySavings\<close> returns
  \<open>lightsKwh = (ambientLight > 300 ? (10*2)/1000 : 0)\<close>,
  \<open>fanKwh = (temperature > 24 ? (75*2)/1000 : 0)\<close>,
  \<open>acKwh = (temperature > 25 ? (500*2)/1000 : 0)\<close>, \<open>totalCost = totalKwh * 0.12\<close>,
  \<open>co2Saved = totalKwh * 0.92 * 0.453592\<close>, \<open>treesEquiv = co2Saved / 0.0575\<close> and an
  hours-empty window of 2.0, every operation being the double-precision one. A reading
  with ambient light 400 and temperature 26 gives the doubles 0.02, 0.15, 1.0 and 1.17;
  a reading with ambient light 15 and temperature 20.0 gives 0 four times.
\<close>

theorem estimator_formulas:
  "lightsKwh (calculateEnergySavings s) =
     (if js_gt (ambient_light s) (Fin 300) then js_div (js_mul (Fin 10) (Fin 2)) (Fin 1000) else Fin 0)
   \<and> fanKwh (calculateEnergySavings s) =
     (if js_gt (temperature s) (Fin 24) then js_div (js_mul (Fin 75) (Fin 2)) (Fin 1000) else Fin 0)
   \<and> acKwh (calculateEnergySavings s) =
     (if js_gt (temperature s) (Fin 25) then js_div (js_mul (Fin 500) (Fin 2)) (Fin 1000) else Fin 0)
   \<and> totalCost (calculateEnergySavings s) = js_mul (totalKwh (calculateEnergySavings s)) (lit 0.12)
   \<and> co2Saved (calculateEnergySavings s) =
       js_mul (js_mul (totalKwh (calculateEnergySavings s)) (lit 0.92)) (lit 0.453592)
   \<and> treesEquiv (calculateEnergySavings s) = js_div (co2Saved (calculateEnergySavings s)) (lit 0.0575)
   \<and> hoursEmpty (calculateEnergySavings s) = lit 2.0
   \<and> (ambient_light s = Fin 400 \<and> temperature s = Fin 26 \<longrightarrow>
        lightsKwh (calculateEnergySavings s) = lit 0.02
        \<and> fanKwh (calculateEnergySavings s) = lit 0.15
        \<and> acKwh (calculateEnergySavings s) = lit 1.0
        \<and> totalKwh (calculateEnergySavings s) = lit 1.17)
   \<and> (ambient_light s = Fin 15 \<and> temperature s = lit 20.0 \<longrightarrow>
        lightsKwh (calculateEnergySavings s) = Fin 0
        \<and> fanKwh (calculateEnergySavings s) = Fin 0
        \<and> acKwh (calculateEnergySavings s) = Fin 0
        \<and> totalKwh (calculateEnergySavings s) = Fin 0)"
  using kwh_consts sum_117 sum_000
  by (simp add: calculateEnergySavings_def Let_def LIGHTS_POWER_def FAN_POWER_def
      AC_POWER_def costPerKwh_def co2PerKwh_def js_gt_def lit_small)

theorem estimator_formulas_witness:
  "lightsKwh (calculateEnergySavings
      \<lparr>hour = Fin 9, day_of_week = Fin 2, ambient_light = Fin 400, pir_motion = Fin 0,
       phone_presence = Fin 0, temperature = Fin 26\<rparr>) = lit 0.02
   \<and> totalKwh (calculateEnergySavings
      \<lparr>hour = Fin 9, day_of_week = Fin 2, ambient_light = Fin 400, pir_motion = Fin 0,
       phone_presence = Fin 0, temperature = Fin 26\<rparr>) = lit 1.17
   \<and> totalKwh (calculateEnergySavings
      \<lparr>hour = Fin 2, day_of_week = Fin 1, ambient_light = Fin 15, pir_motion = Fin 0,
       phone_presence = Fin 0, temperature = lit 20.0\<rparr>) = Fin 0"
proof -
  let ?a = "\<lparr>hour = Fin 9, day_of_week = Fin 2, ambient_light = Fin 400, pir_motion = Fin 0,
       phone_presence = Fin 0, temperature = Fin 26\<rparr>"
  let ?b = "\<lparr>hour = Fin 2, day_of_week = Fin 1, ambient_light = Fin 15, pir_motion = Fin 0,
       phone_presence = Fin 0, temperature = lit 20.0\<rparr>"
  have a: "ambient_light ?a = Fin 400 \<and> temperature ?a = Fin 26" by simp
  have b: "ambient_light ?b = Fin 15 \<and> temperature ?b = lit 20.0" by simp
  from a estimator_formulas [of ?a]
  have "lightsKwh (calculateEnergySavings ?a) = lit 0.02
        \<and> totalKwh (calculateEnergySavings ?a) = lit 1.17" by blast
  moreover from b estimator_formulas [of ?b]
  have "totalKwh (calculateEnergySavings ?b) = Fin 0" by blast
  ultimately show ?thesis by blast
qed

text \<open>
  Claim C3. For every sensor reading, the total of the estimate is the sum of its three
  components: \<open>totalKwh = lightsKwh + fanKwh + acKwh\<close>, the sum being the
  double-precision sum taken from left to right, as the source writes it; and it is the
  same number when the sum is grouped the other way.
\<close>

theorem estimator_total_is_sum:
  "totalKwh (calculateEnergySavings s) =
     js_add (js_add (lightsKwh (calculateEnergySavings s)) (fanKwh (calculateEnergySavings s)))
            (acKwh (calculateEnergySavings s))
   \<and> totalKwh (calculateEnergySavings s) =
     js_add (lightsKwh (calculateEnergySavings s))
            (js_add (fanKwh (calculateEnergySavings s)) (acKwh (calculateEnergySavings s)))"
proof -
  let ?e = "calculateEnergySavings s"
  have t: "totalKwh ?e = js_add (js_add (lightsKwh ?e) (fanKwh ?e)) (acKwh ?e)"
    by (simp add: calculateEnergySavings_def Let_def)
  have l: "lightsKwh ?e = Fin 0 \<or> lightsKwh ?e = lit 0.02"
    using kwh_consts(1) by (simp add: calculateEnergySavings_def Let_def)
  have f: "fanKwh ?e = Fin 0 \<or> fanKwh ?e = lit 0.15"
    using kwh_consts(2) by (simp add: calculateEnergySavings_def Let_def)
  have a: "acKwh ?e = Fin 0 \<or> acKwh ?e = Fin 1"
    using kwh_consts(3) by (simp add: calculateEnergySavings_def Let_def)
  from t sum_grouping [OF l f a] show ?thesis by simp
qed

section \<open>The input of the classifier\<close>

text \<open>
  Claim C1. In every prediction run with a session, what is handed to the classifier is
  one float32 tensor of shape [1,6], under the input name \<^verbatim>\<open>float_input\<close>, built from
  the list \<open>[hour, dayOfWeek, ambientLight, pirMotion, phonePresence, temperature]\<close> in
  this order. The two toggles enter as 1 (checked) or 0 (not checked); the four sliders
  enter as \<^verbatim>\<open>parseFloat\<close> of the widget's value, with no clamping or scaling, stored
  as the binary32 value nearest to it (\<open>fround\<close>, what a \<^verbatim>\<open>Float32Array\<close> does to
  every entry; it leaves 1 and 0 as they are).
\<close>

theorem input_vector:
  "session st = Some sess \<Longrightarrow>
   engineCalls (runPrediction env now0 now1 answer st) =
     engineCalls st @
       [([(''float_input'',
           \<lparr>dtype = ''float32'',
            data =
              [fround (parseFloat env (hourInput (widgets st))),
               fround (parseFloat env (dayInput (widgets st))),
               fround (parseFloat env (lightInput (widgets st))),
               (if pirInput (widgets st) then Fin 1 else Fin 0),
               (if phoneInput (widgets st) then Fin 1 else Fin 0),
               fround (parseFloat env (tempInput (widgets st)))],
            dims = [1, 6]\<rparr>)],
         [''output_label''])]"
proof -
  assume s: "session st = Some sess"
  let ?w = "widgets st"
  have d: "Float32Array
      [parseFloat env (hourInput ?w), parseFloat env (dayInput ?w),
       parseFloat env (lightInput ?w), (if pirInput ?w then lit 1.0 else lit 0.0),
       (if phoneInput ?w then lit 1.0 else lit 0.0), parseFloat env (tempInput ?w)] =
      [fround (parseFloat env (hourInput ?w)), fround (parseFloat env (dayInput ?w)),
       fround (parseFloat env (lightInput ?w)), (if pirInput ?w then Fin 1 else Fin 0),
       (if phoneInput ?w then Fin 1 else Fin 0), fround (parseFloat env (tempInput ?w))]"
    by (simp add: Float32Array_def lit_small fround_one fround_zero del: fround.simps)
  have "engineCalls (runPrediction env now0 now1 answer st) =
     engineCalls st @
       [([(''float_input'',
           \<lparr>dtype = ''float32'',
            data = Float32Array
              [parseFloat env (hourInput ?w), parseFloat env (dayInput ?w),
               parseFloat env (lightInput ?w), (if pirInput ?w then lit 1.0 else lit 0.0),
               (if phoneInput ?w then lit 1.0 else lit 0.0), parseFloat env (tempInput ?w)],
            dims = [1, 6]\<rparr>)],
         [''output_label''])]"
    using s
    by (simp add: runPrediction_def Let_def alert_def getSensorValues_def
        engineCalls_displayResults del: Float32Array_def
        split: sum.splits option.splits)
  then show ?thesis by (simp only: d)
qed

theorem input_vector_witness:
  "engineCalls (runPrediction sample_host (Fin 100) (Fin 103) (label_answer 1) sample_loaded) =
     [([(''float_input'',
         \<lparr>dtype = ''float32'', data = [Fin 9, Fin 2, Fin 550, Fin 1, Fin 1, Fin 23],
          dims = [1, 6]\<rparr>)],
       [''output_label''])]"
proof -
  have s: "session sample_loaded = Some \<lparr>executionProviders = [''wasm'']\<rparr>"
    by (simp add: sample_loaded_def)
  have w: "widgets sample_loaded = sample_widgets" "engineCalls sample_loaded = []"
    by (simp_all add: sample_loaded_def sample_page_def initial_def)
  have pf: "parseFloat sample_host ''9'' = Fin 9" "parseFloat sample_host ''2'' = Fin 2"
    "parseFloat sample_host ''550'' = Fin 550" "parseFloat sample_host ''23'' = Fin 23"
    by (simp_all add: sample_host_def)
  have d: "[fround (parseFloat sample_host (hourInput sample_widgets)),
       fround (parseFloat sample_host (dayInput sample_widgets)),
       fround (parseFloat sample_host (lightInput sample_widgets)),
       (if pirInput sample_widgets then Fin 1 else Fin 0),
       (if phoneInput sample_widgets then Fin 1 else Fin 0),
       fround (parseFloat sample_host (tempInput sample_widgets))] =
      [Fin 9, Fin 2, Fin 550, Fin 1, Fin 1, Fin 23]"
    by (simp add: sample_widgets_def pf fl_eval)
  from input_vector [OF s, of sample_host "Fin 100" "Fin 103" "label_answer 1"]
  show ?thesis unfolding w d by simp
qed

section \<open>A prediction before the model is there\<close>

text \<open>
  Claim C7. When \<^verbatim>\<open>runPrediction\<close> is entered while no session has been created, the
  run ends at once with the alert "Model not loaded yet!": the engine is not called,
  nothing of the result and energy views is written, and the prediction count and the
  total latency stay as they are.
\<close>

theorem model_not_loaded:
  "session st = None \<Longrightarrow>
   runPrediction env now0 now1 answer st = st\<lparr>alerts := alerts st @ [''Model not loaded yet!'']\<rparr>
   \<and> engineCalls (runPrediction env now0 now1 answer st) = engineCalls st
   \<and> results (runPrediction env now0 now1 answer st) = results st
   \<and> energy (runPrediction env now0 now1 answer st) = energy st
   \<and> predictionCount (runPrediction env now0 now1 answer st) = predictionCount st
   \<and> totalLatency (runPrediction env now0 now1 answer st) = totalLatency st"
  by (simp add: runPrediction_def alert_def)

theorem model_not_loaded_witness:
  "runPrediction sample_host (Fin 100) (Fin 103) (label_answer 1) sample_page =
     sample_page\<lparr>alerts := [''Model not loaded yet!'']\<rparr>"
proof -
  have s: "session sample_page = None" "alerts sample_page = []"
    by (simp_all add: sample_page_def initial_def)
  show ?thesis
    using model_not_loaded [OF s(1), of sample_host "Fin 100" "Fin 103" "label_answer 1"]
    by (simp add: s)
qed

section \<open>A preset name that is not a preset\<close>

text \<open>
  Claim C10. Applying a name that is not one of the four presets should change nothing.
  The guard \<^verbatim>\<open>if (!preset) return\<close> lets the names of the members of
  \<^verbatim>\<open>Object.prototype\<close> through: for \<^verbatim>\<open>toString\<close> the lookup finds the inherited
  function, the six widgets are overwritten from its missing fields and a prediction is
  scheduled after 500 ms.
\<close>

theorem applyPreset_inherited_key:
  "timers (applyPreset env ''toString'' st) = timers st @ [(Suc (lastHandle st), Timeout 500)]
   \<and> widgets (applyPreset env ''toString'' st) =
       \<lparr>hourInput = ToString env Undefined, dayInput = ToString env Undefined,
        lightInput = ToString env Undefined, tempInput = ToString env Undefined,
        pirInput = False, phoneInput = False\<rparr>
   \<and> applyPreset env ''toString'' st \<noteq> st"
proof -
  have g: "presets_get ''toString'' = Some Inherited"
    by (simp add: presets_get_def presets_def Object_prototype_keys_def)
  have t: "timers (applyPreset env ''toString'' st) =
      timers st @ [(Suc (lastHandle st), Timeout 500)]"
    by (simp add: applyPreset_def g Let_def updateSensorDisplays_def setTimeout_def)
  have w: "widgets (applyPreset env ''toString'' st) =
       \<lparr>hourInput = ToString env Undefined, dayInput = ToString env Undefined,
        lightInput = ToString env Undefined, tempInput = ToString env Undefined,
        pirInput = False, phoneInput = False\<rparr>"
    by (simp add: applyPreset_def g Let_def updateSensorDisplays_def setTimeout_def)
  from t have "applyPreset env ''toString'' st \<noteq> st"
    by (metis append_self_conv not_Cons_self2)
  with t w show ?thesis by blast
qed

section \<open>An occupied room\<close>

text \<open>
  Claim C4. The energy estimator is not run for an occupied room. With the label 1,
  \<^verbatim>\<open>generateEnergyNudge\<close> writes the "room in use" card and hides the summary, whatever
  the sensors are, and writes nothing else; and a prediction run whose label is 1 shows
  OCCUPIED and leaves every text of the savings summary as it was.
\<close>

theorem occupied_no_estimate:
  "generateEnergyNudge (Fin 1) sens st =
     st\<lparr>energy := (energy st)\<lparr>energyNudgeContainer_html := Some RoomInUse,
                               energySummaryContainer_display := ''none''\<rparr>\<rparr>
   \<and> (session st = Some sess \<and> answer = Inr res \<and> map_of res ''output_label'' = Some d
        \<and> Number_of_first d = Fin 1 \<longrightarrow>
       map_option statusText
           (resultsContainer_html (results (runPrediction env now0 now1 answer st))) =
         Some ''OCCUPIED''
       \<and> energy (runPrediction env now0 now1 answer st) =
           (energy st)\<lparr>energyNudgeContainer_html := Some RoomInUse,
                       energySummaryContainer_display := ''none''\<rparr>)"
  by (simp add: runPrediction_def show_defs Let_def js_seq_one)

theorem occupied_no_estimate_witness:
  "energy (runPrediction sample_host (Fin 100) (Fin 103) (label_answer 1) sample_loaded) =
     (energy sample_loaded)\<lparr>energyNudgeContainer_html := Some RoomInUse,
                              energySummaryContainer_display := ''none''\<rparr>
   \<and> lightsSavings_text
        (energy (runPrediction sample_host (Fin 100) (Fin 103) (label_answer 1) sample_loaded)) = []"
proof -
  have s: "session sample_loaded = Some \<lparr>executionProviders = [''wasm'']\<rparr>"
    by (simp add: sample_loaded_def)
  have a: "label_answer 1 = Inr [(''output_label'', [BigIntV 1])]"
    "map_of [(''output_label'', [BigIntV 1])] ''output_label'' = Some [BigIntV 1]"
    "Number_of_first [BigIntV 1] = Fin 1"
    by (simp_all add: label_answer_def Number_of_BigInt_small)
  have e: "lightsSavings_text (energy sample_loaded) = []"
    by (simp add: sample_loaded_def sample_page_def initial_def)
  from occupied_no_estimate [of sens sample_loaded "\<lparr>executionProviders = [''wasm'']\<rparr>"
      "label_answer 1" "[(''output_label'', [BigIntV 1])]" "[BigIntV 1]" sample_host
      "Fin 100" "Fin 103"]
    s a
  have "energy (runPrediction sample_host (Fin 100) (Fin 103) (label_answer 1) sample_loaded) =
     (energy sample_loaded)\<lparr>energyNudgeContainer_html := Some RoomInUse,
                              energySummaryContainer_display := ''none''\<rparr>"
    by blast
  then show ?thesis by (simp add: e)
qed

section \<open>The label decides\<close>

text \<open>
  Claim C9. Whatever number the classifier's label is, the room is shown as OCCUPIED
  exactly when the label is 1. Every other label (0, and also 2, -1 or any other value)
  is shown as EMPTY and takes the savings path: the nudge card carries the estimate for
  the current sensors and the summary is shown. No label is rejected: no alert is raised.
  A label that the engine gives as a 64-bit integer is the number 1 exactly when it is
  the integer 1.
\<close>

theorem label_classification:
  "map_option statusText (resultsContainer_html (results (displayResults env label prob lat st))) =
     Some (if label = Fin 1 then ''OCCUPIED'' else ''EMPTY'')
   \<and> energyNudgeContainer_html (energy (displayResults env label prob lat st)) =
     Some (if label = Fin 1 then RoomInUse
           else SavingOpportunity
                  [F 2 (totalKwh (calculateEnergySavings (getSensorValues env (widgets st))))])
   \<and> energySummaryContainer_display (energy (displayResults env label prob lat st)) =
     (if label = Fin 1 then ''none'' else ''block'')
   \<and> energyNudgeContainer_html (energy (generateEnergyNudge label sens st)) =
     Some (if label = Fin 1 then RoomInUse
           else SavingOpportunity [F 2 (totalKwh (calculateEnergySavings sens))])
   \<and> alerts (displayResults env label prob lat st) = alerts st
   \<and> (Number_of_first (BigIntV n # ds) = Fin 1) = (n = 1)"
  by (simp add: show_defs Let_def js_seq_one Number_of_BigInt_is_one)

theorem label_classification_witness:
  "map (\<lambda>n. map_option statusText (resultsContainer_html (results
            (displayResults sample_host (Number_of_BigInt n) None (Fin 3) sample_loaded))))
       [0, 1, 2, - 1] =
     [Some ''EMPTY'', Some ''OCCUPIED'', Some ''EMPTY'', Some ''EMPTY'']
   \<and> map (\<lambda>n. energySummaryContainer_display (energy
            (displayResults sample_host (Number_of_BigInt n) None (Fin 3) sample_loaded)))
       [0, 1, 2, - 1] =
     [''block'', ''none'', ''block'', ''block'']"
  using label_classification [of sample_host "Fin 0" None "Fin 3" sample_loaded]
    label_classification [of sample_host "Fin 1" None "Fin 3" sample_loaded]
    label_classification [of sample_host "Fin 2" None "Fin 3" sample_loaded]
    label_classification [of sample_host "Fin (- 1)" None "Fin 3" sample_loaded]
  by (simp add: Number_of_BigInt_small)

section \<open>The running metrics\<close>

text \<open>
  Claim C6. With a session, the running metrics change exactly in the runs that succeed.
  A run that succeeds adds 1 to the prediction count and adds its latency to the total
  latency. A run that fails raises the alert, leaves the count, the total and the views
  as they were, and has called the engine once (no retry). So after a series of runs
  from the initial counters, the count is the number N of runs that succeeded, the total
  is the sum of their latencies (added up in order, in double precision), and when N is
  not 0 the average shown is that sum divided by N.
\<close>

theorem metrics_follow_successes:
  assumes "session st = Some sess"
  shows "(succeeds answer \<longrightarrow>
            predictionCount (runPrediction env now0 now1 answer st) = predictionCount st + 1
            \<and> totalLatency (runPrediction env now0 now1 answer st) =
                js_add (totalLatency st) (js_sub now1 now0))
    \<and> (\<not> succeeds answer \<longrightarrow>
            predictionCount (runPrediction env now0 now1 answer st) = predictionCount st
            \<and> totalLatency (runPrediction env now0 now1 answer st) = totalLatency st
            \<and> results (runPrediction env now0 now1 answer st) = results st
            \<and> energy (runPrediction env now0 now1 answer st) = energy st
            \<and> alerts (runPrediction env now0 now1 answer st) =
                alerts st @ [''Prediction failed! Check console for details.'']
            \<and> length (engineCalls (runPrediction env now0 now1 answer st)) =
                length (engineCalls st) + 1)
    \<and> (predictionCount st = 0 \<and> totalLatency st = Fin 0 \<longrightarrow>
            predictionCount (runPredictions env as st) = length (latencies as)
            \<and> totalLatency (runPredictions env as st) = foldl js_add (Fin 0) (latencies as)
            \<and> length (engineCalls (runPredictions env as st)) =
                length (engineCalls st) + length as
            \<and> (latencies as \<noteq> [] \<longrightarrow>
                avgLatency_text (results (runPredictions env as st)) =
                  [F 2 (js_div (foldl js_add (Fin 0) (latencies as))
                               (Fin (real (length (latencies as))))), S '' ms'']))"
proof -
  have a: "succeeds answer \<longrightarrow>
            predictionCount (runPrediction env now0 now1 answer st) = predictionCount st + 1
            \<and> totalLatency (runPrediction env now0 now1 answer st) =
                js_add (totalLatency st) (js_sub now1 now0)"
    using runPrediction_success(1,2) [OF assms] by blast
  have b: "\<not> succeeds answer \<longrightarrow>
            predictionCount (runPrediction env now0 now1 answer st) = predictionCount st
            \<and> totalLatency (runPrediction env now0 now1 answer st) = totalLatency st
            \<and> results (runPrediction env now0 now1 answer st) = results st
            \<and> energy (runPrediction env now0 now1 answer st) = energy st
            \<and> alerts (runPrediction env now0 now1 answer st) =
                alerts st @ [''Prediction failed! Check console for details.'']
            \<and> length (engineCalls (runPrediction env now0 now1 answer st)) =
                length (engineCalls st) + 1"
  proof
    assume n: "\<not> succeeds answer"
    have "alerts (runPrediction env now0 now1 answer st) =
                alerts st @ [''Prediction failed! Check console for details.'']"
      using assms n
      by (auto simp: succeeds_def runPrediction_def Let_def alert_def
          split: sum.splits option.splits)
    with runPrediction_failure_fields [OF assms n, of env now0 now1]
      runPrediction_failure(2) [OF assms n, of env now0 now1]
    show "predictionCount (runPrediction env now0 now1 answer st) = predictionCount st
            \<and> totalLatency (runPrediction env now0 now1 answer st) = totalLatency st
            \<and> results (runPrediction env now0 now1 answer st) = results st
            \<and> energy (runPrediction env now0 now1 answer st) = energy st
            \<and> alerts (runPrediction env now0 now1 answer st) =
                alerts st @ [''Prediction failed! Check console for details.'']
            \<and> length (engineCalls (runPrediction env now0 now1 answer st)) =
                length (engineCalls st) + 1"
      by blast
  qed
  have c: "predictionCount st = 0 \<and> totalLatency st = Fin 0 \<longrightarrow>
            predictionCount (runPredictions env as st) = length (latencies as)
            \<and> totalLatency (runPredictions env as st) = foldl js_add (Fin 0) (latencies as)
            \<and> length (engineCalls (runPredictions env as st)) =
                length (engineCalls st) + length as
            \<and> (latencies as \<noteq> [] \<longrightarrow>
                avgLatency_text (results (runPredictions env as st)) =
                  [F 2 (js_div (foldl js_add (Fin 0) (latencies as))
                               (Fin (real (length (latencies as))))), S '' ms''])"
    using runPredictions_metrics [OF assms, of env as] runPredictions_avg [OF assms, of as env]
    by simp
  from a b c show ?thesis by blast
qed

theorem metrics_follow_successes_witness:
  "predictionCount (runPredictions sample_host
       [(Fin 100, Fin 103, label_answer 0), (Fin 200, Fin 204, Inl ''engine failure''),
        (Fin 300, Fin 305, label_answer 1)] sample_loaded) = 2
   \<and> totalLatency (runPredictions sample_host
       [(Fin 100, Fin 103, label_answer 0), (Fin 200, Fin 204, Inl ''engine failure''),
        (Fin 300, Fin 305, label_answer 1)] sample_loaded) = Fin 8
   \<and> avgLatency_text (results (runPredictions sample_host
       [(Fin 100, Fin 103, label_answer 0), (Fin 200, Fin 204, Inl ''engine failure''),
        (Fin 300, Fin 305, label_answer 1)] sample_loaded)) = [F 2 (Fin 4), S '' ms'']"
proof -
  let ?as = "[(Fin 100, Fin 103, label_answer 0), (Fin 200, Fin 204, Inl ''engine failure''),
        (Fin 300, Fin 305, label_answer 1)]"
  have s: "session sample_loaded = Some \<lparr>executionProviders = [''wasm'']\<rparr>"
    by (simp add: sample_loaded_def)
  have z: "predictionCount sample_loaded = 0 \<and> totalLatency sample_loaded = Fin 0"
    by (simp add: sample_loaded_def sample_page_def initial_def)
  have l: "latencies ?as = [Fin 3, Fin 5]"
    by (simp add: latencies_def latency_of_def succeeds_def label_answer_def js_sub_def fl_eval)
  have t: "foldl js_add (Fin 0) [Fin 3, Fin 5] = Fin 8"
    by (simp add: fl_eval)
  have q: "fl 4 = Fin 4"
    by (simp add: fl_eval)
  from metrics_follow_successes [OF s, of _ sample_host _ _ ?as] z
  have "predictionCount (runPredictions sample_host ?as sample_loaded) = length (latencies ?as)
      \<and> totalLatency (runPredictions sample_host ?as sample_loaded) =
          foldl js_add (Fin 0) (latencies ?as)
      \<and> (latencies ?as \<noteq> [] \<longrightarrow>
          avgLatency_text (results (runPredictions sample_host ?as sample_loaded)) =
            [F 2 (js_div (foldl js_add (Fin 0) (latencies ?as))
                         (Fin (real (length (latencies ?as))))), S '' ms''])"
    by blast
  then show ?thesis unfolding l t by (simp add: q)
qed

section \<open>The campus projection\<close>

text \<open>
  Claim C8. The campus projection shown with an estimate is computed as
  \<open>dailyPerRoom = totalKwh * 4 * 0.3\<close>, \<open>monthly = dailyPerRoom * 100 * 30\<close>,
  \<open>annual = dailyPerRoom * 100 * 365\<close> and
  \<open>annualCO2 = co2Saved * 4 * 0.3 * 100 * 365\<close>, in double precision from left to
  right. Each is monotone in the total: of two savings objects, the one with the smaller
  or equal \<open>totalKwh\<close> has the smaller or equal daily, monthly and annual savings; and of
  two estimates of the estimator, the one with the smaller or equal \<open>totalKwh\<close> has the
  smaller or equal annual CO2 as well.
\<close>

theorem campus_projection:
  "monthlySavings_text (energy (displayEnergySummary sv st)) =
     [F 0 (monthlySavings sv), S '' kWh ($'', F 0 (js_mul (monthlySavings sv) (lit 0.12)), S '')'']
   \<and> annualSavings_text (energy (displayEnergySummary sv st)) =
     [F 0 (annualSavings sv), S '' kWh ($'', F 0 (js_mul (annualSavings sv) (lit 0.12)), S '')'']
   \<and> annualCO2_text (energy (displayEnergySummary sv st)) =
     [F 1 (js_div (annualCO2 sv) (Fin 1000)), S ('' tons CO'' @ [CHR 0xE2, CHR 0x82, CHR 0x82])]
   \<and> dailySavingsPerRoom sv = js_mul (js_mul (totalKwh sv) (Fin 4)) (lit 0.3)
   \<and> monthlySavings sv = js_mul (js_mul (dailySavingsPerRoom sv) (Fin 100)) (Fin 30)
   \<and> annualSavings sv = js_mul (js_mul (dailySavingsPerRoom sv) (Fin 100)) (Fin 365)
   \<and> annualCO2 sv =
       js_mul (js_mul (js_mul (js_mul (co2Saved sv) (Fin 4)) (lit 0.3)) (Fin 100)) (Fin 365)
   \<and> (js_le (totalKwh sv1) (totalKwh sv2) \<longrightarrow>
        js_le (dailySavingsPerRoom sv1) (dailySavingsPerRoom sv2)
        \<and> js_le (monthlySavings sv1) (monthlySavings sv2)
        \<and> js_le (annualSavings sv1) (annualSavings sv2))
   \<and> (js_le (totalKwh (calculateEnergySavings s1)) (totalKwh (calculateEnergySavings s2)) \<longrightarrow>
        js_le (annualCO2 (calculateEnergySavings s1)) (annualCO2 (calculateEnergySavings s2)))"
proof -
  have t: "monthlySavings_text (energy (displayEnergySummary sv st)) =
     [F 0 (monthlySavings sv), S '' kWh ($'', F 0 (js_mul (monthlySavings sv) (lit 0.12)), S '')'']
   \<and> annualSavings_text (energy (displayEnergySummary sv st)) =
     [F 0 (annualSavings sv), S '' kWh ($'', F 0 (js_mul (annualSavings sv) (lit 0.12)), S '')'']
   \<and> annualCO2_text (energy (displayEnergySummary sv st)) =
     [F 1 (js_div (annualCO2 sv) (Fin 1000)), S ('' tons CO'' @ [CHR 0xE2, CHR 0x82, CHR 0x82])]"
    by (simp add: displayEnergySummary_def)
  have f: "dailySavingsPerRoom sv = js_mul (js_mul (totalKwh sv) (Fin 4)) (lit 0.3)
   \<and> monthlySavings sv = js_mul (js_mul (dailySavingsPerRoom sv) (Fin 100)) (Fin 30)
   \<and> annualSavings sv = js_mul (js_mul (dailySavingsPerRoom sv) (Fin 100)) (Fin 365)
   \<and> annualCO2 sv =
       js_mul (js_mul (js_mul (js_mul (co2Saved sv) (Fin 4)) (lit 0.3)) (Fin 100)) (Fin 365)"
    by (simp add: dailySavingsPerRoom_def monthlySavings_def annualSavings_def annualCO2_def
        predictionsPerDay_def optimizationRate_def roomsCount_def daysPerMonth_def
        daysPerYear_def)
  from t f projection_mono [of sv1 sv2] co2_mono(2) [of s1 s2] show ?thesis by blast
qed

theorem campus_projection_witness:
  "js_le (monthlySavings (calculateEnergySavings
      \<lparr>hour = Fin 2, day_of_week = Fin 1, ambient_light = Fin 15, pir_motion = Fin 0,
       phone_presence = Fin 0, temperature = Fin 20\<rparr>))
     (monthlySavings (calculateEnergySavings
      \<lparr>hour = Fin 9, day_of_week = Fin 2, ambient_light = Fin 400, pir_motion = Fin 0,
       phone_presence = Fin 0, temperature = Fin 26\<rparr>))
   \<and> js_le (annualCO2 (calculateEnergySavings
      \<lparr>hour = Fin 2, day_of_week = Fin 1, ambient_light = Fin 15, pir_motion = Fin 0,
       phone_presence = Fin 0, temperature = Fin 20\<rparr>))
     (annualCO2 (calculateEnergySavings
      \<lparr>hour = Fin 9, day_of_week = Fin 2, ambient_light = Fin 400, pir_motion = Fin 0,
       phone_presence = Fin 0, temperature = Fin 26\<rparr>))"
proof -
  let ?a = "\<lparr>hour = Fin 2, day_of_week = Fin 1, ambient_light = Fin 15, pir_motion = Fin 0,
       phone_presence = Fin 0, temperature = Fin 20\<rparr>"
  let ?b = "\<lparr>hour = Fin 9, day_of_week = Fin 2, ambient_light = Fin 400, pir_motion = Fin 0,
       phone_presence = Fin 0, temperature = Fin 26\<rparr>"
  have a: "totalKwh (calculateEnergySavings ?a) = Fin 0"
    using sum_000 by (simp add: calculateEnergySavings_def Let_def js_gt_def)
  have b: "totalKwh (calculateEnergySavings ?b) = lit 1.17"
    using kwh_consts sum_117 by (simp add: calculateEnergySavings_def Let_def js_gt_def)
  have le: "js_le (totalKwh (calculateEnergySavings ?a)) (totalKwh (calculateEnergySavings ?b))"
    unfolding a b lit_values by (simp add: js_le_simps)
  from le campus_projection [of _ _ "calculateEnergySavings ?a" "calculateEnergySavings ?b" ?a ?b]
  show ?thesis by blast
qed

section \<open>The scenario player\<close>

text \<open>
  Claim C5. Started from a page whose timers have handles the browser has given out, the
  scenario player applies the preset \<^verbatim>\<open>empty\<close> at once (its prediction is scheduled
  after 500 ms) and registers an interval timer of 7000 ms. Whatever happens on the page afterwards (timers firing, predictions,
  preset buttons, widget input), the firings of the interval timer apply the presets in
  the cyclic order \<open>empty, morning, evening, weekend, empty, \<dots>\<close>: firing number \<open>j\<close>
  (the first one being number 1) applies the preset at index \<open>j mod 4\<close>; and the timer
  stays registered, so this goes on for as long as the browser fires it. Stopping removes
  the timer (it fires no more), forgets the handle and sets the step back to 0; starting
  again after a stop applies \<^verbatim>\<open>empty\<close>.
\<close>

theorem scenario_player_cycle:
  assumes "timers_ok st"
  shows "demoScenarios = [''empty'', ''morning'', ''evening'', ''weekend'']
    \<and> (\<exists>s0 h. startAutoDemo env st = Inr s0
          \<and> showing env ''empty'' s0
          \<and> autoDemoInterval s0 = Some h
          \<and> timers s0 = timers st @ [(Suc (lastHandle st), Timeout 500), (h, Interval 7000)]
          \<and> map_of (timers s0) h = Some (Interval 7000)
          \<and> (\<forall>evs.
               (\<forall>j < length (tick_states env evs s0).
                   showing env (demoScenarios ! (Suc j mod 4)) (tick_states env evs s0 ! j))
               \<and> map_of (timers (run_events env evs s0)) h = Some (Interval 7000)
               \<and> autoDemoInterval (stopAutoDemo (run_events env evs s0)) = None
               \<and> currentDemoStep (stopAutoDemo (run_events env evs s0)) = 0
               \<and> fire env now0 now1 answer h (stopAutoDemo (run_events env evs s0)) = None
               \<and> (\<exists>r. startAutoDemo env (stopAutoDemo (run_events env evs s0)) = Inr r
                      \<and> showing env ''empty'' r)))"
proof -
  let ?h = "Suc (Suc (lastHandle st))"
  from startAutoDemo_step [OF assms, of env]
  obtain s0 where 0: "startAutoDemo env st = Inr s0" "showing env ''empty'' s0"
    "currentDemoStep s0 = 1" "autoDemoInterval s0 = Some ?h"
    "map_of (timers s0) ?h = Some (Interval 7000)"
    "timers s0 = timers st @ [(Suc (lastHandle st), Timeout 500), (?h, Interval 7000)]"
    by blast
  have p0: "player_at ?h 7000 0 s0" using 0 by (simp add: player_at_def)
  have "(\<forall>j < length (tick_states env evs s0).
                   showing env (demoScenarios ! (Suc j mod 4)) (tick_states env evs s0 ! j))
               \<and> map_of (timers (run_events env evs s0)) ?h = Some (Interval 7000)
               \<and> autoDemoInterval (stopAutoDemo (run_events env evs s0)) = None
               \<and> currentDemoStep (stopAutoDemo (run_events env evs s0)) = 0
               \<and> fire env now0 now1 answer ?h (stopAutoDemo (run_events env evs s0)) = None
               \<and> (\<exists>r. startAutoDemo env (stopAutoDemo (run_events env evs s0)) = Inr r
                      \<and> showing env ''empty'' r)" for evs
  proof -
    from tick_states_cycle [OF p0, of env evs]
    have c: "\<forall>j < length (tick_states env evs s0).
                showing env (demoScenarios ! (Suc j mod 4)) (tick_states env evs s0 ! j)"
      and p: "player_at ?h 7000 (length (tick_states env evs s0)) (run_events env evs s0)"
      by simp_all
    from p have r: "map_of (timers (run_events env evs s0)) ?h = Some (Interval 7000)"
      and a: "autoDemoInterval (run_events env evs s0) = Some ?h"
      by (simp_all add: player_at_def)
    have nz: "?h \<noteq> 0" by simp
    note stop = stopAutoDemo_step [OF a nz]
    from startAutoDemo_shows [of env "stopAutoDemo (run_events env evs s0)"]
    have "\<exists>r. startAutoDemo env (stopAutoDemo (run_events env evs s0)) = Inr r
        \<and> showing env ''empty'' r"
      by blast
    with c r stop(1,2) stop(4) [of env now0 now1 answer] show ?thesis by blast
  qed
  with 0 show ?thesis by (auto simp: demoScenarios_def)
qed

theorem scenario_player_cycle_witness:
  "\<exists>s0 h. startAutoDemo sample_host sample_loaded = Inr s0
      \<and> showing sample_host ''empty'' s0
      \<and> map_of (timers s0) h = Some (Interval 7000)
      \<and> showing sample_host ''morning'' (run_events sample_host [Fire h NaN NaN (Inl [])] s0)
      \<and> fire sample_host NaN NaN (Inl []) h
           (stopAutoDemo (run_events sample_host [Fire h NaN NaN (Inl [])] s0)) = None"
proof -
  let ?evs = "\<lambda>h. [Fire h NaN NaN (Inl [])]"
  have m: "demoScenarios ! (Suc 0 mod 4) = ''morning''" by (simp add: demoScenarios_def)
  from scenario_player_cycle [OF timers_ok_sample, of sample_host NaN NaN "Inl []"]
  obtain s0 h where 0: "startAutoDemo sample_host sample_loaded = Inr s0"
    "showing sample_host ''empty'' s0" "map_of (timers s0) h = Some (Interval 7000)"
    and all: "\<And>evs.
               (\<forall>j < length (tick_states sample_host evs s0).
                   showing sample_host (demoScenarios ! (Suc j mod 4))
                     (tick_states sample_host evs s0 ! j))
               \<and> fire sample_host NaN NaN (Inl []) h
                    (stopAutoDemo (run_events sample_host evs s0)) = None"
    by blast
  have ts: "tick_states sample_host (?evs h) s0 = [run_events sample_host (?evs h) s0]"
    using tick_states_single [OF 0(3), of sample_host NaN NaN "Inl []"] by simp
  from all [of "?evs h"] have
    a: "\<forall>j < length (tick_states sample_host (?evs h) s0).
          showing sample_host (demoScenarios ! (Suc j mod 4))
            (tick_states sample_host (?evs h) s0 ! j)"
    and f: "fire sample_host NaN NaN (Inl []) h
                    (stopAutoDemo (run_events sample_host (?evs h) s0)) = None"
    by blast+
  have l: "0 < length (tick_states sample_host (?evs h) s0)" by (simp only: ts) simp
  from a [rule_format, OF l]
  have "showing sample_host (demoScenarios ! (Suc 0 mod 4))
      ([run_events sample_host (?evs h) s0] ! 0)"
    by (simp only: ts)
  then have "showing sample_host ''morning'' (run_events sample_host (?evs h) s0)"
    by (simp only: m nth_Cons_0)
  with 0 f show ?thesis by blast
qed

end
